theory Spec2Isabelle
  imports Main
begin

section \<open>Text primitives\<close>

text \<open>
  A transcript is a \<open>string\<close>. Case, digits, word characters and whitespace follow
  Python's \<open>str\<close> methods and \<open>re\<close> classes on ASCII text: \<open>lower\<close>, \<open>title\<close>,
  \<open>strip\<close>, \<open>isdigit\<close>, \<open>\\s\<close>, \<open>\\d\<close>, \<open>\\w\<close>. Python counts the separators
  0x1C..0x1F as whitespace, and so does \<open>is_space\<close>. Characters beyond ASCII are left as
  they are and belong to no class.
\<close>

definition upper_chars :: string where
  "upper_chars = ''ABCDEFGHIJKLMNOPQRSTUVWXYZ''"

definition lower_chars :: string where
  "lower_chars = ''abcdefghijklmnopqrstuvwxyz''"

definition digit_chars :: string where
  "digit_chars = ''0123456789''"

definition space_chars :: string where
  "space_chars = [CHR 0x09, CHR 0x0A, CHR 0x0B, CHR 0x0C, CHR 0x0D,
                  CHR 0x1C, CHR 0x1D, CHR 0x1E, CHR 0x1F, CHR '' '']"

definition is_alpha :: "char \<Rightarrow> bool" where
  "is_alpha c = (c \<in> set upper_chars \<or> c \<in> set lower_chars)"

definition is_digit :: "char \<Rightarrow> bool" where
  "is_digit c = (c \<in> set digit_chars)"

definition is_alnum :: "char \<Rightarrow> bool" where
  "is_alnum c = (is_alpha c \<or> is_digit c)"

definition is_word_char :: "char \<Rightarrow> bool" where
  "is_word_char c = (is_alnum c \<or> c = CHR ''_'')"

definition is_space :: "char \<Rightarrow> bool" where
  "is_space c = (c \<in> set space_chars)"

definition to_lower :: "char \<Rightarrow> char" where
  "to_lower c = (case map_of (zip upper_chars lower_chars) c of Some l \<Rightarrow> l | None \<Rightarrow> c)"

definition to_upper :: "char \<Rightarrow> char" where
  "to_upper c = (case map_of (zip lower_chars upper_chars) c of Some l \<Rightarrow> l | None \<Rightarrow> c)"

definition lower :: "string \<Rightarrow> string" where
  "lower s = map to_lower s"

definition strip :: "string \<Rightarrow> string" where
  "strip s = rev (dropWhile is_space (rev (dropWhile is_space s)))"

text \<open>\<open>str.title\<close>: a letter is upper-cased after a non-letter and lower-cased after a letter.\<close>

fun title_from :: "bool \<Rightarrow> string \<Rightarrow> string" where
  "title_from prev [] = []"
| "title_from prev (c # cs) =
     (if is_alpha c then (if prev then to_lower c else to_upper c) # title_from True cs
      else c # title_from False cs)"

definition title :: "string \<Rightarrow> string" where
  "title s = title_from False s"

definition isdigit :: "string \<Rightarrow> bool" where
  "isdigit s = (s \<noteq> [] \<and> list_all is_digit s)"

text \<open>\<open>startswith s p\<close> is \<open>s.startswith(p)\<close>; \<open>str_in p s\<close> is \<open>p in s\<close>.\<close>

fun startswith :: "string \<Rightarrow> string \<Rightarrow> bool" where
  "startswith s [] = True"
| "startswith [] (p # ps) = False"
| "startswith (c # cs) (p # ps) = (c = p \<and> startswith cs ps)"

fun str_in :: "string \<Rightarrow> string \<Rightarrow> bool" where
  "str_in p [] = (p = [])"
| "str_in p (c # cs) = (startswith (c # cs) p \<or> str_in p cs)"

text \<open>\<open>any(word in s for word in ws)\<close>\<close>

definition any_in :: "string list \<Rightarrow> string \<Rightarrow> bool" where
  "any_in ws s = list_ex (\<lambda>w. str_in w s) ws"

text \<open>A value used as a condition: \<open>None\<close> and the empty string are false.\<close>

definition truthy :: "string option \<Rightarrow> bool" where
  "truthy v = (case v of None \<Rightarrow> False | Some s \<Rightarrow> s \<noteq> [])"

section \<open>Substitution by scanning\<close>

text \<open>
  \<open>re.sub\<close> and \<open>str.replace\<close> scan the text from the left: where the pattern matches,
  the replacement is written and the scan goes on behind the match; elsewhere one
  character is copied. A matcher gives the replacement and the text behind the match.
  No pattern of the program matches the empty string, so the scan always moves on; the
  length test keeps the function total for any matcher.
\<close>

type_synonym matcher = "string \<Rightarrow> (string \<times> string) option"

fun re_sub :: "matcher \<Rightarrow> string \<Rightarrow> string" where
  "re_sub m [] = []"
| "re_sub m (c # cs) =
     (case m (c # cs) of
        None \<Rightarrow> c # re_sub m cs
      | Some (r, rest) \<Rightarrow>
          if length rest \<le> length cs then r @ re_sub m rest else c # re_sub m cs)"

text \<open>The first match of a pattern anywhere in the text (\<open>re.findall(...)[0]\<close>).\<close>

fun re_search :: "(string \<Rightarrow> string option) \<Rightarrow> string \<Rightarrow> string option" where
  "re_search m [] = None"
| "re_search m (c # cs) =
     (case m (c # cs) of Some found \<Rightarrow> Some found | None \<Rightarrow> re_search m cs)"

text \<open>\<open>s.replace(old, new)\<close>\<close>

definition m_literal :: "string \<Rightarrow> string \<Rightarrow> matcher" where
  "m_literal old new s =
     (if old \<noteq> [] \<and> startswith s old then Some (new, drop (length old) s) else None)"

definition str_replace :: "string \<Rightarrow> string \<Rightarrow> string \<Rightarrow> string" where
  "str_replace s old new =
     (if old = [] then new @ concat (map (\<lambda>c. c # new) s) else re_sub (m_literal old new) s)"

text \<open>
  \<open>(a|b|...)\<close> under \<open>re.IGNORECASE\<close>, replaced by the empty string: the first
  alternative that matches at the position is removed.
\<close>

definition m_alternatives :: "string list \<Rightarrow> matcher" where
  "m_alternatives alts s =
     (case filter (\<lambda>a. a \<noteq> [] \<and> lower (take (length a) s) = a) alts of
        [] \<Rightarrow> None
      | a # _ \<Rightarrow> Some ([], drop (length a) s))"

text \<open>\<open>plus\\s+\<close> and \<open>country\\s+code\\s+\<close>, both replaced by \<open>+\<close>\<close>

definition m_plus :: matcher where
  "m_plus s =
     (let r = drop 4 s in
      if startswith s ''plus'' \<and> r \<noteq> [] \<and> is_space (hd r)
      then Some (''+'', dropWhile is_space r) else None)"

definition m_country_code :: matcher where
  "m_country_code s =
     (let r1 = drop 7 s; r2 = dropWhile is_space r1; r3 = drop 4 r2 in
      if startswith s ''country'' \<and> r1 \<noteq> [] \<and> is_space (hd r1) \<and>
         startswith r2 ''code'' \<and> r3 \<noteq> [] \<and> is_space (hd r3)
      then Some (''+'', dropWhile is_space r3) else None)"

text \<open>\<open>(\\d)\\s+(\\d)\<close> replaced by the two digits\<close>

definition m_digit_gap :: matcher where
  "m_digit_gap s =
     (case s of
        [] \<Rightarrow> None
      | d1 # r \<Rightarrow>
          (case dropWhile is_space r of
             [] \<Rightarrow> None
           | d2 # rest \<Rightarrow>
               if is_digit d1 \<and> r \<noteq> [] \<and> is_space (hd r) \<and> is_digit d2
               then Some ([d1, d2], rest) else None))"

text \<open>\<open>\\s*X\\s*\<close> replaced by \<open>X\<close>, for \<open>X\<close> the at sign or the dot\<close>

definition m_around :: "char \<Rightarrow> matcher" where
  "m_around x s =
     (case dropWhile is_space s of
        [] \<Rightarrow> None
      | c # rest \<Rightarrow> if c = x then Some ([x], dropWhile is_space rest) else None)"

text \<open>\<open>\\s+\<close> replaced by the empty string\<close>

definition m_spaces :: matcher where
  "m_spaces s =
     (case s of
        [] \<Rightarrow> None
      | c # rest \<Rightarrow> if is_space c then Some ([], dropWhile is_space rest) else None)"

section \<open>Intent classifiers\<close>

definition positive_responses :: "string list" where
  "positive_responses =
     [''yes'', ''yeah'', ''yep'', ''yup'', ''correct'', ''right'', ''true'', ''confirm'',
      ''ok'', ''okay'', ''perfect'', ''exactly'', ''absolutely'', ''definitely'',
      ''sure'', ''good'', ''great'', ''fine'', ''proceed'', ''go ahead'', ''continue'',
      ''that's right'', ''sounds good'', ''looks good'', ''all good'', ''excellent'']"

definition negative_responses :: "string list" where
  "negative_responses =
     [''no'', ''nope'', ''not'', ''wrong'', ''incorrect'', ''false'', ''negative'',
      ''not right'', ''not correct'', ''not perfect'', ''that's wrong'',
      ''not good'', ''bad'', ''fix it'', ''change it'', ''redo'', ''again'']"

definition is_positive_response :: "string \<Rightarrow> bool" where
  "is_positive_response text =
     (let text_lower = strip (lower text) in
      if text_lower \<in> set positive_responses then True
      else any_in positive_responses text_lower)"

definition is_negative_response :: "string \<Rightarrow> bool" where
  "is_negative_response text =
     (let text_lower = strip (lower text) in
      if text_lower \<in> set negative_responses then True
      else any_in negative_responses text_lower)"

definition off_topic_keywords :: "string list" where
  "off_topic_keywords =
     [''weather'', ''time'', ''date'', ''news'', ''sports'', ''music'', ''movie'',
      ''food'', ''restaurant'', ''travel'', ''joke'', ''story'', ''game'']"

definition is_off_topic_question :: "string \<Rightarrow> bool" where
  "is_off_topic_question text = any_in off_topic_keywords (lower text)"

section \<open>Field extractors\<close>

subsection \<open>Name, company, country\<close>

definition skip_phrases :: "string list" where
  "skip_phrases =
     [''what's your name'', ''your name is'', ''what is your name'',
      ''tell me your name'', ''can you tell me'', ''please tell me'']"

definition name_fillers :: "string list" where
  "name_fillers = [''my name is'', ''i am'', ''i'm'', ''call me'']"

text \<open>\<open>re.match(r'^[A-Za-z\\s]+$', name)\<close>\<close>

definition name_pattern :: "string \<Rightarrow> bool" where
  "name_pattern name = (name \<noteq> [] \<and> list_all (\<lambda>c. is_alpha c \<or> is_space c) name)"

definition extract_name :: "string \<Rightarrow> string option" where
  "extract_name text =
     (if any_in skip_phrases (lower text) then None
      else
        let name = strip (re_sub (m_alternatives name_fillers) (strip text)) in
        if length name < 2 \<or> length name > 50 \<or> \<not> name_pattern name then None
        else Some (title name))"

definition company_fillers :: "string list" where
  "company_fillers =
     [''i work at'', ''my company is'', ''company is'', ''i'm from'', ''i work for'',
      ''company'']"

definition extract_company :: "string \<Rightarrow> string option" where
  "extract_company text =
     (if text = [] \<or> length (strip text) < 2 then None
      else
        let company = strip (re_sub (m_alternatives company_fillers) (strip text)) in
        if length company < 2 \<or> length company > 100 then None
        else Some (title company))"

definition country_fillers :: "string list" where
  "country_fillers = [''i am from'', ''i'm from'', ''from'', ''country is'', ''my country'']"

definition extract_country :: "string \<Rightarrow> string option" where
  "extract_country text =
     (if text = [] \<or> length (strip text) < 2 then None
      else
        let country = strip (re_sub (m_alternatives country_fillers) (lower (strip text))) in
        if length country < 2 \<or> length country > 50 then None
        else Some (title country))"

subsection \<open>Email\<close>

text \<open>The spoken-form table, in the order the dictionary is written and iterated.\<close>

definition replacements :: "(string \<times> string) list" where
  "replacements =
     [('' at the rate '', ''@''), ('' at '', ''@''), ('' @ '', ''@''), ('' add '', ''@''),
      ('' dot '', ''.''), ('' period '', ''.''), ('' point '', ''.''), ('' full stop '', ''.''),
      ('' gmail '', ''gmail''), ('' g mail '', ''gmail''), ('' jemail '', ''gmail''),
      ('' yahoo '', ''yahoo''), ('' ya who '', ''yahoo''), ('' yahu '', ''yahoo''),
      ('' hotmail '', ''hotmail''), ('' hot mail '', ''hotmail''),
      ('' outlook '', ''outlook''), ('' out look '', ''outlook''),
      ('' underscore '', ''_''), ('' dash '', ''-''), ('' hyphen '', ''-''),
      (''dot com'', ''.com''), (''dot org'', ''.org''), (''dot net'', ''.net''),
      (''dot in'', ''.in''),
      (''gmail dot com'', ''gmail.com''), (''yahoo dot com'', ''yahoo.com''),
      (''hotmail dot com'', ''hotmail.com''), (''outlook dot com'', ''outlook.com'')]"

definition apply_replacements :: "(string \<times> string) list \<Rightarrow> string \<Rightarrow> string" where
  "apply_replacements table text =
     foldl (\<lambda>t (spoken, actual). str_replace t spoken actual) text table"

definition is_local_char :: "char \<Rightarrow> bool" where
  "is_local_char c = (is_alnum c \<or> c = CHR ''.'' \<or> c = CHR ''_'' \<or> c = CHR ''-'')"

definition is_domain_char :: "char \<Rightarrow> bool" where
  "is_domain_char c = (is_alnum c \<or> c = CHR ''.'' \<or> c = CHR ''-'')"

text \<open>
  The domain part under the end anchor: \<open>[a-zA-Z0-9][a-zA-Z0-9.-]*\\.[a-zA-Z]{2,}$\<close>.
  The letters behind the dot reach the end of the text, so the dot is the last one.
\<close>

definition domain_full :: "string \<Rightarrow> bool" where
  "domain_full d =
     (let tld = rev (takeWhile (\<lambda>c. c \<noteq> CHR ''.'') (rev d)) in
      d \<noteq> [] \<and> is_alnum (hd d) \<and> list_all is_domain_char d \<and> CHR ''.'' \<in> set d \<and>
      list_all is_alpha tld \<and> 2 \<le> length tld)"

definition email_full :: "string \<Rightarrow> bool" where
  "email_full s =
     (let r = dropWhile is_local_char s in
      s \<noteq> [] \<and> is_alnum (hd s) \<and> r \<noteq> [] \<and> hd r = CHR ''@'' \<and> domain_full (tl r))"

text \<open>\<open>re.match\<close> with \<open>$\<close>, which also matches before one final newline.\<close>

definition email_pattern :: "string \<Rightarrow> bool" where
  "email_pattern s =
     (email_full s \<or> (s \<noteq> [] \<and> last s = CHR 0x0A \<and> email_full (butlast s)))"

text \<open>
  The domain part without the anchor: the greedy class gives back characters until a
  dot with two letters behind it is found, so the last such dot of the run is taken,
  with all the letters that follow it.
\<close>

fun domain_match :: "string \<Rightarrow> string \<Rightarrow> string option \<Rightarrow> string option" where
  "domain_match seen [] best = best"
| "domain_match seen (c # cs) best =
     domain_match (seen @ [c]) cs
       (if c = CHR ''.'' \<and> seen \<noteq> [] \<and> 2 \<le> length (takeWhile is_alpha cs)
        then Some (seen @ [c] @ takeWhile is_alpha cs) else best)"

definition m_email_loose :: "string \<Rightarrow> string option" where
  "m_email_loose s =
     (let loc = takeWhile is_local_char s; r = dropWhile is_local_char s;
          run = takeWhile is_domain_char (tl r) in
      if s \<noteq> [] \<and> is_alnum (hd s) \<and> r \<noteq> [] \<and> hd r = CHR ''@'' \<and>
         run \<noteq> [] \<and> is_alnum (hd run)
      then (case domain_match [] run None of
              None \<Rightarrow> None
            | Some dm \<Rightarrow> Some (loc @ CHR ''@'' # dm))
      else None)"

definition extract_email :: "string \<Rightarrow> string option" where
  "extract_email text =
     (if text = [] \<or> length (strip text) < 5 then None
      else
        let t1 = apply_replacements replacements (strip (lower text));
            t2 = re_sub (m_around CHR ''@'') t1;
            t3 = re_sub (m_around CHR ''.'') t2;
            email_candidate = re_sub m_spaces t3
        in if email_pattern email_candidate then Some (lower email_candidate)
           else (case re_search m_email_loose t3 of
                   Some found \<Rightarrow> Some (lower found)
                 | None \<Rightarrow> None))"

subsection \<open>Phone\<close>

definition number_words :: "(string \<times> string) list" where
  "number_words =
     [(''zero'', ''0''), (''one'', ''1''), (''two'', ''2''), (''three'', ''3''),
      (''four'', ''4''), (''five'', ''5''), (''six'', ''6''), (''seven'', ''7''),
      (''eight'', ''8''), (''nine'', ''9''), (''oh'', ''0''), (''o'', ''0'')]"

text \<open>
  \<open>double\\s+(\\w+)\<close> and \<open>triple\\s+(\\w+)\<close>: the word is replaced by its digit when
  it is a number word, and the result is written two or three times.
\<close>

definition m_repeat :: "string \<Rightarrow> nat \<Rightarrow> matcher" where
  "m_repeat keyword n s =
     (let r1 = drop (length keyword) s; r2 = dropWhile is_space r1;
          w = takeWhile is_word_char r2 in
      if startswith s keyword \<and> r1 \<noteq> [] \<and> is_space (hd r1) \<and> w \<noteq> []
      then Some (concat (replicate n (case map_of number_words w of Some d \<Rightarrow> d | None \<Rightarrow> w)),
                 dropWhile is_word_char r2)
      else None)"

definition phone_chars_of :: "string \<Rightarrow> string" where
  "phone_chars_of text =
     (let t1 = re_sub m_plus (strip (lower text));
          t2 = re_sub m_country_code t1;
          t3 = re_sub (m_repeat ''double'' 2) t2;
          t4 = re_sub (m_repeat ''triple'' 3) t3;
          t5 = apply_replacements number_words t4;
          t6 = re_sub m_digit_gap t5
      in filter (\<lambda>c. is_digit c \<or> c = CHR ''+'') t6)"

definition extract_phone :: "string \<Rightarrow> string option" where
  "extract_phone text =
     (if text = [] \<or> length (strip text) < 3 then None
      else
        let phone_chars = phone_chars_of text in
        if startswith phone_chars ''+'' then
          (let digits_part = tl phone_chars in
           if 8 \<le> length digits_part \<and> length digits_part \<le> 15 then Some phone_chars
           else None)
        else if 8 \<le> length phone_chars \<and> length phone_chars \<le> 15 then Some phone_chars
        else None)"

definition validate_phone :: "string \<Rightarrow> bool" where
  "validate_phone phone =
     (if phone = [] then False
      else if startswith phone ''+'' then
        (let digits_part = tl phone in
         8 \<le> length digits_part \<and> length digits_part \<le> 15 \<and> isdigit digits_part)
      else 8 \<le> length phone \<and> length phone \<le> 15 \<and> isdigit phone)"

definition country_codes :: "(string \<times> string) list" where
  "country_codes =
     [(''usa'', ''+1''), (''united states'', ''+1''), (''america'', ''+1''), (''us'', ''+1''),
      (''india'', ''+91''), (''uk'', ''+44''), (''united kingdom'', ''+44''),
      (''britain'', ''+44''), (''canada'', ''+1''), (''australia'', ''+61''),
      (''germany'', ''+49''), (''france'', ''+33''), (''japan'', ''+81''), (''china'', ''+86''),
      (''brazil'', ''+55''), (''russia'', ''+7''), (''italy'', ''+39''), (''spain'', ''+34''),
      (''netherlands'', ''+31''), (''sweden'', ''+46''), (''norway'', ''+47''),
      (''denmark'', ''+45''), (''finland'', ''+358''), (''poland'', ''+48''),
      (''turkey'', ''+90''), (''south africa'', ''+27''), (''egypt'', ''+20''),
      (''nigeria'', ''+234''), (''kenya'', ''+254''), (''ghana'', ''+233''), (''uae'', ''+971''),
      (''saudi arabia'', ''+966''), (''singapore'', ''+65''), (''malaysia'', ''+60''),
      (''thailand'', ''+66''), (''philippines'', ''+63''), (''indonesia'', ''+62''),
      (''vietnam'', ''+84''), (''south korea'', ''+82''), (''taiwan'', ''+886'')]"

definition format_phone_with_country :: "string \<Rightarrow> string \<Rightarrow> string" where
  "format_phone_with_country phone country =
     (if phone = [] \<or> country = [] then phone
      else if startswith phone ''+'' then phone
      else
        let country_code = (case map_of country_codes (lower country) of
                              Some code \<Rightarrow> code | None \<Rightarrow> [])
        in if country_code \<noteq> [] then country_code @ phone else phone)"

section \<open>Turns\<close>

text \<open>
  The visitor record is the dictionary \<open>user_data\<close>: a key may be missing, and reading
  a missing key raises \<open>KeyError\<close>. A handler mutates the dictionary it is given, so a
  raise carries the dictionary as it stands at that moment: the route's \<open>except\<close>
  branch returns it.
\<close>

type_synonym user_data = "string \<rightharpoonup> string"

datatype py_error = KeyError string | ValueError string

record turn_output =
  bot_response :: string
  new_state :: string
  updated_data :: user_data
  current_field :: string
  awaiting_confirmation :: bool
  show_manual_input :: "bool option"
  manual_field :: "string option"

type_synonym handler_result = "(py_error \<times> user_data) + turn_output"

text \<open>The two shapes of the returned dictionary: five keys, or seven with the manual-entry keys.\<close>

definition reply :: "string \<Rightarrow> string \<Rightarrow> user_data \<Rightarrow> string \<Rightarrow> bool \<Rightarrow> turn_output" where
  "reply response st d field aw =
     \<lparr>bot_response = response, new_state = st, updated_data = d, current_field = field,
      awaiting_confirmation = aw, show_manual_input = None, manual_field = None\<rparr>"

definition reply_manual :: "string \<Rightarrow> string \<Rightarrow> user_data \<Rightarrow> string \<Rightarrow> turn_output" where
  "reply_manual response st d field =
     \<lparr>bot_response = response, new_state = st, updated_data = d, current_field = field,
      awaiting_confirmation = False, show_manual_input = Some True,
      manual_field = Some field\<rparr>"

definition empty_user_data :: user_data where
  "empty_user_data =
     [''name'' \<mapsto> [], ''company'' \<mapsto> [], ''email'' \<mapsto> [], ''phone'' \<mapsto> [], ''country'' \<mapsto> []]"

subsection \<open>Greeting\<close>

definition off_topic_responses :: "string list" where
  "off_topic_responses =
     [''That's interesting! But let's focus on getting your details for the AWS Community Day event. How are you today?'',
      ''I appreciate your question! However, I'm here to help collect your information for our event. How are you feeling today?'',
      ''Great question! Let's get back to our registration process. How are you doing?'']"

text \<open>\<open>random.choice\<close>: the draw is an input of the model.\<close>

definition random_choice :: "nat \<Rightarrow> string list \<Rightarrow> string" where
  "random_choice draw xs = xs ! (draw mod length xs)"

definition handle_off_topic :: "nat \<Rightarrow> string \<Rightarrow> user_data \<Rightarrow> turn_output" where
  "handle_off_topic draw user_input d =
     reply (random_choice draw off_topic_responses) ''greeting'' d [] False"

definition positive_words :: "string list" where
  "positive_words =
     [''good'', ''fine'', ''great'', ''well'', ''excellent'', ''awesome'', ''fantastic'',
      ''ok'', ''okay'']"

definition negative_words :: "string list" where
  "negative_words =
     [''not good'', ''bad'', ''terrible'', ''awful'', ''not well'', ''sick'', ''tired'',
      ''stressed'', ''not doing good'', ''not great'']"

definition handle_greeting :: "nat \<Rightarrow> string \<Rightarrow> user_data \<Rightarrow> string \<Rightarrow> bool \<Rightarrow> turn_output" where
  "handle_greeting draw user_input d cf aw =
     (if is_off_topic_question user_input then handle_off_topic draw user_input d
      else
        let user_lower = lower user_input in
        if any_in negative_words user_lower then
          reply ''I'm sorry to hear that. I hope our event can brighten your day! Let's get you registered. What's your name?''
            ''collect_name'' d ''name'' False
        else if any_in positive_words user_lower then
          reply ''Wonderful! Let's get started. What's your name?'' ''collect_name'' d ''name'' False
        else reply ''Hello! How are you doing today?'' ''greeting'' d [] False)"

subsection \<open>Collecting the five fields\<close>

definition handle_name_collection :: "string \<Rightarrow> user_data \<Rightarrow> string \<Rightarrow> bool \<Rightarrow> handler_result" where
  "handle_name_collection user_input d cf aw =
     (if aw then
        (if is_positive_response user_input then
           (case d ''name'' of
              None \<Rightarrow> Inl (KeyError ''name'', d)
            | Some n \<Rightarrow>
                Inr (reply (''Excellent! Which company do you work for, '' @ n @ ''?'')
                       ''collect_company'' d ''company'' False))
         else if is_negative_response user_input then
           Inr (reply_manual
                  ''No problem! Please tell me your correct name, or if you prefer, you can type it manually.''
                  ''collect_name'' (d(''name'' \<mapsto> [])) ''name'')
         else
           Inr (reply ''I didn't understand. Is your name correct? Please say yes or no.''
                  ''collect_name'' d ''name'' True))
      else
        (let name = extract_name user_input in
         if truthy name then
           Inr (reply (''I heard your name as '' @ the name @ ''. Is that correct?'')
                  ''collect_name'' (d(''name'' \<mapsto> the name)) ''name'' True)
         else
           Inr (reply_manual
                  ''I couldn't catch your name clearly. Could you please speak your name slowly, or type it manually?''
                  ''collect_name'' d ''name'')))"

definition handle_company_collection :: "string \<Rightarrow> user_data \<Rightarrow> string \<Rightarrow> bool \<Rightarrow> handler_result" where
  "handle_company_collection user_input d cf aw =
     (if aw then
        (if is_positive_response user_input then
           Inr (reply ''Perfect! Now, what's your email address?'' ''collect_email'' d ''email'' False)
         else if is_negative_response user_input then
           Inr (reply_manual
                  ''Let me get that right. Which company do you work for? You can speak it or type it manually.''
                  ''collect_company'' (d(''company'' \<mapsto> [])) ''company'')
         else
           Inr (reply ''Is your company name correct? Please say yes or no.''
                  ''collect_company'' d ''company'' True))
      else
        (let company = extract_company user_input in
         if truthy company \<and> 1 < length (strip (the company)) then
           Inr (reply (''I heard your company as '' @ the company @ ''. Is that correct?'')
                  ''collect_company'' (d(''company'' \<mapsto> the company)) ''company'' True)
         else
           Inr (reply_manual
                  ''Could you please tell me your company name clearly, or type it manually?''
                  ''collect_company'' d ''company'')))"

definition handle_email_collection :: "string \<Rightarrow> user_data \<Rightarrow> string \<Rightarrow> bool \<Rightarrow> handler_result" where
  "handle_email_collection user_input d cf aw =
     (if aw then
        (if is_positive_response user_input then
           Inr (reply ''Excellent! Now, what's your phone number?'' ''collect_phone'' d ''phone'' False)
         else if is_negative_response user_input then
           Inr (reply_manual
                  ''Let me get your email right. Please speak it clearly like 'john at gmail dot com', or type it manually.''
                  ''collect_email'' (d(''email'' \<mapsto> [])) ''email'')
         else
           Inr (reply ''Is your email address correct? Please say yes or no.''
                  ''collect_email'' d ''email'' True))
      else
        (let email = extract_email user_input in
         if truthy email then
           Inr (reply (''I heard your email as '' @ the email @ ''. Is that correct?'')
                  ''collect_email'' (d(''email'' \<mapsto> the email)) ''email'' True)
         else
           Inr (reply_manual
                  ''I couldn't catch your email clearly. Please speak it like 'john at gmail dot com', or type it manually.''
                  ''collect_email'' d ''email'')))"

definition handle_phone_collection :: "string \<Rightarrow> user_data \<Rightarrow> string \<Rightarrow> bool \<Rightarrow> handler_result" where
  "handle_phone_collection user_input d cf aw =
     (if aw then
        (if is_positive_response user_input then
           Inr (reply ''Great! Which country are you from? This helps me format your number correctly.''
                  ''collect_country'' d ''country'' False)
         else if is_negative_response user_input then
           Inr (reply_manual ''No problem! Please provide your correct phone number.''
                  ''collect_phone'' (d(''phone'' \<mapsto> [])) ''phone'')
         else
           Inr (reply ''Is your phone number correct? Please say yes or no.''
                  ''collect_phone'' d ''phone'' True))
      else
        (let phone = extract_phone user_input in
         if truthy phone \<and> validate_phone (the phone) then
           Inr (reply (''I heard your phone number as '' @ the phone @ ''. Is that correct?'')
                  ''collect_phone'' (d(''phone'' \<mapsto> the phone)) ''phone'' True)
         else
           Inr (reply_manual
                  ''Please speak your phone number digit by digit, like 'nine eight seven six five four three two one'.''
                  ''collect_phone'' d ''phone'')))"

text \<open>
  The summary of the country handler reads \<open>name\<close>, \<open>company\<close>, \<open>email\<close> and
  \<open>phone\<close>, in this order; the first missing key raises.
\<close>

definition country_summary :: "user_data \<Rightarrow> py_error + string" where
  "country_summary d =
     (case d ''name'' of None \<Rightarrow> Inl (KeyError ''name'') | Some n \<Rightarrow>
      case d ''company'' of None \<Rightarrow> Inl (KeyError ''company'') | Some c \<Rightarrow>
      case d ''email'' of None \<Rightarrow> Inl (KeyError ''email'') | Some e \<Rightarrow>
      case d ''phone'' of None \<Rightarrow> Inl (KeyError ''phone'') | Some p \<Rightarrow>
        Inr (''Perfect! Let me confirm your details: Name: '' @ n @ '', Company: '' @ c @
             '', Email: '' @ e @ '', Phone: '' @ p @ ''. Should I submit this information?''))"

definition handle_country_collection :: "string \<Rightarrow> user_data \<Rightarrow> string \<Rightarrow> bool \<Rightarrow> handler_result" where
  "handle_country_collection user_input d cf aw =
     (if aw then
        (if is_positive_response user_input then
           (case d ''phone'' of None \<Rightarrow> Inl (KeyError ''phone'', d) | Some phone \<Rightarrow>
            case d ''country'' of None \<Rightarrow> Inl (KeyError ''country'', d) | Some country \<Rightarrow>
              let formatted_phone = format_phone_with_country phone country;
                  d1 = d(''phone'' \<mapsto> formatted_phone)
              in (case country_summary d1 of
                    Inl e \<Rightarrow> Inl (e, d1)
                  | Inr summary \<Rightarrow> Inr (reply summary ''final_confirmation'' d1 [] False)))
         else if is_negative_response user_input then
           Inr (reply_manual ''Which country are you from?''
                  ''collect_country'' (d(''country'' \<mapsto> [])) ''country'')
         else
           Inr (reply ''Is your country correct? Please say yes or no.''
                  ''collect_country'' d ''country'' True))
      else
        (let country = extract_country user_input in
         if truthy country then
           Inr (reply (''I heard '' @ the country @ ''. Is that correct?'')
                  ''collect_country'' (d(''country'' \<mapsto> the country)) ''country'' True)
         else
           Inr (reply_manual ''Could you please tell me your country name clearly?''
                  ''collect_country'' d ''country'')))"

subsection \<open>The record sink and the final confirmation\<close>

text \<open>
  The world outside a turn: the spreadsheet (\<open>None\<close> while the file does not exist),
  the log, and the list of dictionaries \<open>save_visitor_data\<close> has been called with.
  What the file system does is an input: the write goes through, an unreadable file
  is replaced by a fresh one, or an exception reaches the outer \<open>except\<close> and nothing
  is written. The stamps are set on the caller's dictionary before any file is touched.
\<close>

datatype sink_outcome = SinkWrites | SinkReplaces | SinkFails

datatype log_level = Info | Warning | Error

record world =
  excel_file :: "user_data list option"
  sink_calls :: "user_data list"
  log :: "log_level list"

definition save_visitor_data :: "sink_outcome \<Rightarrow> string \<Rightarrow> user_data \<Rightarrow> world \<Rightarrow> user_data \<times> world" where
  "save_visitor_data outcome now d w =
     (let d1 = d(''timestamp'' \<mapsto> now, ''event'' \<mapsto> ''Community Day'');
          w1 = w\<lparr>sink_calls := sink_calls w @ [d]\<rparr>;
          df_new = [d1]
      in case outcome of
           SinkFails \<Rightarrow> (d1, w1\<lparr>log := log w1 @ [Error]\<rparr>)
         | SinkWrites \<Rightarrow>
             (let df_combined = (case excel_file w of None \<Rightarrow> df_new | Some rows \<Rightarrow> rows @ df_new);
                  w2 = w1\<lparr>excel_file := Some df_combined\<rparr>
              in (d1, w2\<lparr>log := log w2 @
                    [if d1 ''name'' = None \<or> d1 ''company'' = None then Error else Info]\<rparr>))
         | SinkReplaces \<Rightarrow>
             (let df_combined = df_new;
                  w2 = w1\<lparr>excel_file := Some df_combined,
                          log := log w1 @ (if excel_file w = None then [] else [Warning])\<rparr>
              in (d1, w2\<lparr>log := log w2 @
                    [if d1 ''name'' = None \<or> d1 ''company'' = None then Error else Info]\<rparr>)))"

definition handle_final_confirmation ::
  "sink_outcome \<Rightarrow> string \<Rightarrow> world \<Rightarrow> string \<Rightarrow> user_data \<Rightarrow> string \<Rightarrow> bool \<Rightarrow> turn_output \<times> world" where
  "handle_final_confirmation outcome now w user_input d cf aw =
     (if is_positive_response user_input then
        (let (d1, w1) = save_visitor_data outcome now d w in
         (reply ''Fantastic! Your information has been successfully submitted. Thank you for visiting Operisoft at the Community Day event. We'll be in touch soon!''
            ''finished'' d1 [] False, w1))
      else if is_negative_response user_input then
        (reply ''No problem! Let's start fresh. What's your name?''
           ''collect_name'' empty_user_data ''name'' False, w)
      else
        (reply ''Should I submit your information? Please say yes to submit or no to start over.''
           ''final_confirmation'' d [] False, w))"

subsection \<open>Dispatch and the two routes\<close>

text \<open>What a turn takes from outside the request: the random draw, the clock, the file system.\<close>

record env =
  env_draw :: nat
  env_now :: string
  env_sink :: sink_outcome

type_synonym handler =
  "env \<Rightarrow> world \<Rightarrow> string \<Rightarrow> user_data \<Rightarrow> string \<Rightarrow> bool \<Rightarrow> handler_result \<times> world"

definition conversation_states :: "(string \<times> handler) list" where
  "conversation_states =
     [(''greeting'', \<lambda>e w u d cf aw. (Inr (handle_greeting (env_draw e) u d cf aw), w)),
      (''collect_name'', \<lambda>e w u d cf aw. (handle_name_collection u d cf aw, w)),
      (''collect_company'', \<lambda>e w u d cf aw. (handle_company_collection u d cf aw, w)),
      (''collect_email'', \<lambda>e w u d cf aw. (handle_email_collection u d cf aw, w)),
      (''collect_phone'', \<lambda>e w u d cf aw. (handle_phone_collection u d cf aw, w)),
      (''collect_country'', \<lambda>e w u d cf aw. (handle_country_collection u d cf aw, w)),
      (''final_confirmation'', \<lambda>e w u d cf aw.
          (let (out, w1) = handle_final_confirmation (env_sink e) (env_now e) w u d cf aw
           in (Inr out, w1)))]"

definition process_conversation ::
  "env \<Rightarrow> world \<Rightarrow> string \<Rightarrow> string \<Rightarrow> user_data \<Rightarrow> string \<Rightarrow> bool \<Rightarrow> handler_result \<times> world" where
  "process_conversation e w user_input st d cf aw =
     (let handler = (case map_of conversation_states st of
                       Some h \<Rightarrow> h
                     | None \<Rightarrow> (\<lambda>e w u d cf aw. (Inr (handle_greeting (env_draw e) u d cf aw), w)))
      in handler e w user_input d cf aw)"

text \<open>The route \<open>/process_conversation\<close>: any exception of the turn ends in the apology.\<close>

definition route_process_conversation ::
  "env \<Rightarrow> world \<Rightarrow> string \<Rightarrow> string \<Rightarrow> user_data \<Rightarrow> string \<Rightarrow> bool \<Rightarrow> turn_output \<times> world" where
  "route_process_conversation e w user_input st d cf aw =
     (case process_conversation e w user_input st d cf aw of
        (Inr result, w1) \<Rightarrow> (result, w1)
      | (Inl (err, d1), w1) \<Rightarrow>
          (reply ''I apologize, there was an error. Could you please repeat that?'' st d1 cf False,
           w1\<lparr>log := log w1 @ [Error]\<rparr>))"

text \<open>
  The route \<open>/manual_input\<close>. \<open>Inl\<close> is the answer with status 500, which carries no turn
  output.
\<close>

definition field_order :: "string list" where
  "field_order = [''name'', ''company'', ''email'', ''phone'', ''country'']"

fun index_of :: "string list \<Rightarrow> string \<Rightarrow> nat option" where
  "index_of [] x = None"
| "index_of (y # ys) x = (if y = x then Some 0 else map_option Suc (index_of ys x))"

definition manual_summary :: "user_data \<Rightarrow> py_error + string" where
  "manual_summary d =
     (case d ''name'' of None \<Rightarrow> Inl (KeyError ''name'') | Some n \<Rightarrow>
      case d ''company'' of None \<Rightarrow> Inl (KeyError ''company'') | Some c \<Rightarrow>
      case d ''email'' of None \<Rightarrow> Inl (KeyError ''email'') | Some e \<Rightarrow>
      case d ''phone'' of None \<Rightarrow> Inl (KeyError ''phone'') | Some p \<Rightarrow>
        Inr (''Perfect! Let me confirm: Name: '' @ n @ '', Company: '' @ c @
             '', Email: '' @ e @ '', Phone: '' @ p @ ''. Should I submit this?''))"

definition handle_manual_input :: "string \<Rightarrow> string \<Rightarrow> user_data \<Rightarrow> py_error + turn_output" where
  "handle_manual_input field val d =
     (if field \<noteq> [] \<and> strip val \<noteq> [] then
        (let d1 = d(field \<mapsto> strip val) in
         case index_of field_order field of
           None \<Rightarrow> Inl (ValueError field)
         | Some current_index \<Rightarrow>
             if current_index < length field_order - 1 then
               (let next_field = field_order ! (current_index + 1) in
                Inr (reply (''Thank you! Now, what's your '' @ next_field @ ''?'')
                       (''collect_'' @ next_field) d1 next_field False))
             else
               (case manual_summary d1 of
                  Inl err \<Rightarrow> Inl err
                | Inr summary \<Rightarrow> Inr (reply summary ''final_confirmation'' d1 [] False)))
      else
        Inr (reply (''Please enter a valid '' @ field @ ''.'') (''collect_'' @ field) d field False))"

text \<open>The dictionary a handler leaves behind, whether it returned or raised.\<close>

definition data_after :: "handler_result \<Rightarrow> user_data" where
  "data_after r = (case r of Inl (err, d1) \<Rightarrow> d1 | Inr out \<Rightarrow> updated_data out)"

section \<open>Notions used in the properties\<close>

text \<open>
  A turn output is well formed when it carries a response and its state is one of the
  seven states of the dispatch table or \<open>finished\<close>.
\<close>

definition state_names :: "string list" where
  "state_names = map fst conversation_states @ [''finished'']"

definition well_formed :: "turn_output \<Rightarrow> bool" where
  "well_formed out = (bot_response out \<noteq> [] \<and> new_state out \<in> set state_names)"

text \<open>
  A table of patterns puts the specific before the generic when no key contains a key
  that stands before it: otherwise the earlier, shorter key is replaced first, inside
  the longer one.
\<close>

fun specific_first :: "string list \<Rightarrow> bool" where
  "specific_first [] = True"
| "specific_first (k # later) = (list_all (\<lambda>k'. \<not> str_in k k') later \<and> specific_first later)"

text \<open>
  A session threads the state, the record, the current field and the confirmation flag
  from each output into the next request. It starts in \<open>greeting\<close> with the five
  fields empty. A step is a turn of the conversation route with any input, or a call of
  the manual-input route with any value, for a field that \<open>allowed\<close> admits given the
  current field: the route itself takes any field.
\<close>

definition filled :: "user_data \<Rightarrow> string \<Rightarrow> bool" where
  "filled d k = (case d k of None \<Rightarrow> False | Some v \<Rightarrow> v \<noteq> [])"

definition config_of :: "turn_output \<Rightarrow> string \<times> user_data \<times> string \<times> bool" where
  "config_of out =
     (new_state out, updated_data out, current_field out, awaiting_confirmation out)"

inductive reachable_by :: "(string \<Rightarrow> string \<Rightarrow> bool) \<Rightarrow> string \<times> user_data \<times> string \<times> bool \<Rightarrow> bool"
  for allowed :: "string \<Rightarrow> string \<Rightarrow> bool"
where
  start: "reachable_by allowed (''greeting'', empty_user_data, [], False)"
| turn: "reachable_by allowed (st, d, cf, aw) \<Longrightarrow>
         fst (route_process_conversation e w u st d cf aw) = out \<Longrightarrow>
         reachable_by allowed (config_of out)"
| manual: "reachable_by allowed (st, d, cf, aw) \<Longrightarrow> allowed cf field \<Longrightarrow>
         handle_manual_input field v d = Inr out \<Longrightarrow>
         reachable_by allowed (config_of out)"

text \<open>
  The two readings of a manual entry: for any field, as the route takes it, or only for
  the field the previous output named as current field.
\<close>

definition any_field :: "string \<Rightarrow> string \<Rightarrow> bool" where
  "any_field cf field = True"

definition current_field_only :: "string \<Rightarrow> string \<Rightarrow> bool" where
  "current_field_only cf field = (field = cf)"

text \<open>
  What holds of a session whose manual entries follow the current field: in each
  collecting state the fields before it are filled, the field of the state is filled
  while a confirmation is awaited, and the current field is the field of the state.
\<close>

definition progress_ok :: "string \<Rightarrow> user_data \<Rightarrow> string \<Rightarrow> bool \<Rightarrow> bool" where
  "progress_ok st d cf aw =
     (if st = ''collect_name'' then cf = ''name'' \<and> (aw \<longrightarrow> filled d ''name'')
      else if st = ''collect_company'' then
        cf = ''company'' \<and> filled d ''name'' \<and> (aw \<longrightarrow> filled d ''company'')
      else if st = ''collect_email'' then
        cf = ''email'' \<and> filled d ''name'' \<and> filled d ''company'' \<and> (aw \<longrightarrow> filled d ''email'')
      else if st = ''collect_phone'' then
        cf = ''phone'' \<and> filled d ''name'' \<and> filled d ''company'' \<and> filled d ''email'' \<and>
        (aw \<longrightarrow> filled d ''phone'')
      else if st = ''collect_country'' then
        cf = ''country'' \<and> filled d ''name'' \<and> filled d ''company'' \<and> filled d ''email'' \<and>
        filled d ''phone'' \<and> (aw \<longrightarrow> filled d ''country'')
      else if st = ''final_confirmation'' then
        cf = [] \<and> filled d ''name'' \<and> filled d ''company'' \<and> filled d ''email'' \<and>
        filled d ''phone'' \<and> filled d ''country''
      else cf = [])"

definition config_ok :: "string \<times> user_data \<times> string \<times> bool \<Rightarrow> bool" where
  "config_ok c = (case c of (st, d, cf, aw) \<Rightarrow> progress_ok st d cf aw)"

text \<open>A matcher consumes text when what it leaves behind is shorter than what it was given.\<close>

definition consumes :: "matcher \<Rightarrow> bool" where
  "consumes m = (\<forall>c cs r rest. m (c # cs) = Some (r, rest) \<longrightarrow> length rest \<le> length cs)"

section \<open>Properties\<close>

subsection \<open>Helper facts about the text primitives\<close>

lemma lower_eq_Nil [simp]: "lower s = [] \<longleftrightarrow> s = []"
  by (simp add: lower_def)

lemma length_lower [simp]: "length (lower s) = length s"
  by (simp add: lower_def)

subsection \<open>Every pattern consumes text\<close>

text \<open>
  Each matcher of the program leaves a text shorter than the one it was given, so the
  length test of \<open>re_sub\<close> never decides anything: the scan is the one of \<open>re.sub\<close>.
\<close>

lemma consumesI:
  assumes "\<And>s r rest. m s = Some (r, rest) \<Longrightarrow> length rest < length s"
  shows "consumes m"
  unfolding consumes_def using assms by fastforce

lemma startswith_length: "startswith s p \<Longrightarrow> length p \<le> length s"
  by (induction s p rule: startswith.induct) simp_all

lemma consumes_literal: "consumes (m_literal old new)"
proof (rule consumesI)
  fix s r rest assume "m_literal old new s = Some (r, rest)"
  then have "old \<noteq> []" "startswith s old" "rest = drop (length old) s"
    by (auto simp add: m_literal_def split: if_splits)
  then show "length rest < length s"
    using startswith_length [of s old] by (cases old) simp_all
qed

lemma consumes_alternatives: "consumes (m_alternatives alts)"
proof (rule consumesI)
  fix s r rest assume "m_alternatives alts s = Some (r, rest)"
  then obtain a where a: "a \<noteq> []" "lower (take (length a) s) = a" "rest = drop (length a) s"
    by (auto simp add: m_alternatives_def filter_eq_Cons_iff split: list.splits)
  from a(2) have "length a \<le> length s"
    by (metis length_lower length_take min.cobounded1)
  with a show "length rest < length s"
    by (cases a) simp_all
qed

lemma consumes_plus: "consumes m_plus"
proof (rule consumesI)
  fix s r rest assume "m_plus s = Some (r, rest)"
  then have "drop 4 s \<noteq> []" "rest = dropWhile is_space (drop 4 s)"
    by (auto simp add: m_plus_def Let_def split: if_splits)
  then show "length rest < length s"
    using length_dropWhile_le [of is_space "drop 4 s"] by simp
qed

lemma consumes_country_code: "consumes m_country_code"
proof (rule consumesI)
  fix s r rest assume "m_country_code s = Some (r, rest)"
  then have "drop 7 s \<noteq> []"
    "rest = dropWhile is_space (drop 4 (dropWhile is_space (drop 7 s)))"
    by (auto simp add: m_country_code_def Let_def split: if_splits)
  then show "length rest < length s"
    using length_dropWhile_le [of is_space "drop 4 (dropWhile is_space (drop 7 s))"]
      length_dropWhile_le [of is_space "drop 7 s"]
    by simp
qed

lemma consumes_repeat: "consumes (m_repeat keyword n)"
proof (rule consumesI)
  fix s r rest assume "m_repeat keyword n s = Some (r, rest)"
  then have word: "takeWhile is_word_char (dropWhile is_space (drop (length keyword) s)) \<noteq> []"
    and rest: "rest = dropWhile is_word_char (dropWhile is_space (drop (length keyword) s))"
    by (auto simp add: m_repeat_def Let_def split: if_splits)
  let ?x = "dropWhile is_space (drop (length keyword) s)"
  have "length (takeWhile is_word_char ?x) + length (dropWhile is_word_char ?x) = length ?x"
    by (metis length_append takeWhile_dropWhile_id)
  moreover from word have "0 < length (takeWhile is_word_char ?x)"
    by (rule iffD2 [OF length_greater_0_conv])
  ultimately have "length rest < length ?x"
    unfolding rest by linarith
  also have "length ?x \<le> length s"
    using length_dropWhile_le [of is_space "drop (length keyword) s"] by simp
  finally show "length rest < length s" .
qed

lemma consumes_digit_gap: "consumes m_digit_gap"
proof (rule consumesI)
  fix s r rest assume "m_digit_gap s = Some (r, rest)"
  then obtain d1 d2 where "s = d1 # tl s" "dropWhile is_space (tl s) = d2 # rest"
    by (auto simp add: m_digit_gap_def split: list.splits if_splits)
  then show "length rest < length s"
    using length_dropWhile_le [of is_space "tl s"] by (cases s) simp_all
qed

lemma consumes_around: "consumes (m_around x)"
proof (rule consumesI)
  fix s r rest assume "m_around x s = Some (r, rest)"
  then obtain c rest0 where "dropWhile is_space s = c # rest0" "rest = dropWhile is_space rest0"
    by (auto simp add: m_around_def split: list.splits if_splits)
  then show "length rest < length s"
    using length_dropWhile_le [of is_space s] length_dropWhile_le [of is_space rest0] by simp
qed

lemma consumes_spaces: "consumes m_spaces"
proof (rule consumesI)
  fix s r rest assume "m_spaces s = Some (r, rest)"
  then obtain c where "s = c # tl s" "rest = dropWhile is_space (tl s)"
    by (auto simp add: m_spaces_def split: list.splits if_splits)
  then show "length rest < length s"
    using length_dropWhile_le [of is_space "tl s"] by (cases s) simp_all
qed

lemma re_sub_scan:
  "consumes m \<Longrightarrow>
     re_sub m (c # cs) =
       (case m (c # cs) of None \<Rightarrow> c # re_sub m cs | Some (r, rest) \<Rightarrow> r @ re_sub m rest)"
  by (auto simp add: consumes_def split: option.splits)

subsection \<open>Greeting: the mood tie-break\<close>

text \<open>
  C10. In the greeting state, an input that is not off-topic and contains both a
  negative mood phrase and a positive mood word is answered on the negative-mood
  branch: the empathetic response, and the conversation advances to \<open>collect_name\<close>
  with the record untouched.
\<close>

theorem greeting_negative_mood_first:
  assumes "\<not> is_off_topic_question u"
    and "any_in negative_words (lower u)"
    and "any_in positive_words (lower u)"
  shows "bot_response (handle_greeting draw u d cf aw) =
           ''I'm sorry to hear that. I hope our event can brighten your day! Let's get you registered. What's your name?''
         \<and> new_state (handle_greeting draw u d cf aw) = ''collect_name''
         \<and> updated_data (handle_greeting draw u d cf aw) = d
         \<and> awaiting_confirmation (handle_greeting draw u d cf aw) = False"
  using assms by (simp add: handle_greeting_def reply_def)

theorem greeting_negative_mood_first_witness:
  "\<not> is_off_topic_question ''not good''
   \<and> any_in negative_words (lower ''not good'')
   \<and> any_in positive_words (lower ''not good'')
   \<and> bot_response (handle_greeting 0 ''not good'' empty_user_data [] False) =
       ''I'm sorry to hear that. I hope our event can brighten your day! Let's get you registered. What's your name?''
   \<and> new_state (handle_greeting 0 ''not good'' empty_user_data [] False) = ''collect_name''"
proof -
  have h1: "\<not> is_off_topic_question ''not good''" by code_simp
  have h2: "any_in negative_words (lower ''not good'')" by code_simp
  have h3: "any_in positive_words (lower ''not good'')" by code_simp
  from greeting_negative_mood_first [OF h1 h2 h3, of 0 empty_user_data "[]" False] h1 h2 h3
  show ?thesis by blast
qed

subsection \<open>Phone reformatting on the confirmed country\<close>

text \<open>
  C6. On an affirmative answer in the country-collecting state the stored phone becomes
  \<open>format_phone_with_country phone country\<close>. For \<open>9876543210\<close> and \<open>India\<close> that is
  \<open>+919876543210\<close>; a phone that starts with \<open>+\<close> is unchanged; a country that is not
  in the table, such as \<open>Atlantis\<close>, leaves the phone unchanged; the lookup ignores
  case, and the table holds the name variants \<open>usa\<close>, \<open>united states\<close>, \<open>america\<close>
  and \<open>us\<close> for \<open>+1\<close>.
\<close>

theorem country_confirmation_formats_phone:
  assumes "is_positive_response u"
    and "d ''phone'' = Some phone"
    and "d ''country'' = Some country"
  shows "data_after (handle_country_collection u d cf True) ''phone'' =
           Some (format_phone_with_country phone country)
         \<and> format_phone_with_country ''9876543210'' ''India'' = ''+919876543210''
         \<and> (startswith phone ''+'' \<longrightarrow> format_phone_with_country phone country = phone)
         \<and> (map_of country_codes (lower country) = None \<longrightarrow>
              format_phone_with_country phone country = phone)
         \<and> format_phone_with_country phone ''Atlantis'' = phone
         \<and> (\<forall>other. lower other = lower country \<longrightarrow>
              format_phone_with_country phone other = format_phone_with_country phone country)
         \<and> map (\<lambda>variant. map_of country_codes variant)
               [''usa'', ''united states'', ''america'', ''us'']
             = [Some ''+1'', Some ''+1'', Some ''+1'', Some ''+1'']"
proof -
  have stored: "data_after (handle_country_collection u d cf True) ''phone'' =
                  Some (format_phone_with_country phone country)"
    using assms
    by (simp add: handle_country_collection_def data_after_def country_summary_def reply_def
          Let_def split: option.splits)
  have india: "format_phone_with_country ''9876543210'' ''India'' = ''+919876543210''"
    by code_simp
  have plus: "startswith phone ''+'' \<longrightarrow> format_phone_with_country phone country = phone"
    by (simp add: format_phone_with_country_def)
  have unknown: "map_of country_codes (lower country) = None \<longrightarrow>
                   format_phone_with_country phone country = phone"
    by (simp add: format_phone_with_country_def)
  have "map_of country_codes (lower ''Atlantis'') = None" by code_simp
  then have atlantis: "format_phone_with_country phone ''Atlantis'' = phone"
    by (simp add: format_phone_with_country_def)
  have nocase: "\<forall>other. lower other = lower country \<longrightarrow>
                  format_phone_with_country phone other = format_phone_with_country phone country"
  proof (intro allI impI)
    fix other assume eq: "lower other = lower country"
    then have "other = [] \<longleftrightarrow> country = []"
      by (metis lower_eq_Nil)
    with eq show "format_phone_with_country phone other = format_phone_with_country phone country"
      by (simp add: format_phone_with_country_def)
  qed
  have variants: "map (\<lambda>variant. map_of country_codes variant)
                    [''usa'', ''united states'', ''america'', ''us'']
                  = [Some ''+1'', Some ''+1'', Some ''+1'', Some ''+1'']"
    by code_simp
  from stored india plus unknown atlantis nocase variants show ?thesis by blast
qed

theorem country_confirmation_formats_phone_witness:
  "is_positive_response ''yes''
   \<and> data_after (handle_country_collection ''yes''
        [''name'' \<mapsto> ''Asha Rao'', ''company'' \<mapsto> ''Operisoft'', ''email'' \<mapsto> ''asha@operisoft.com'',
         ''phone'' \<mapsto> ''9876543210'', ''country'' \<mapsto> ''India''] [] True) ''phone''
       = Some ''+919876543210''
   \<and> format_phone_with_country ''9876543210'' ''INDIA'' = ''+919876543210''"
proof -
  let ?d = "[''name'' \<mapsto> ''Asha Rao'', ''company'' \<mapsto> ''Operisoft'', ''email'' \<mapsto> ''asha@operisoft.com'',
             ''phone'' \<mapsto> ''9876543210'', ''country'' \<mapsto> ''India'']"
  have h1: "is_positive_response ''yes''" by code_simp
  have h2: "?d ''phone'' = Some ''9876543210''" by simp
  have h3: "?d ''country'' = Some ''India''" by simp
  have h4: "lower ''INDIA'' = lower ''India''" by code_simp
  from country_confirmation_formats_phone [OF h1 h2 h3, of "[]"] h1 h4
  show ?thesis by metis
qed

subsection \<open>Confirmation handlers: the affirmative test comes first\<close>

text \<open>
  C5. For a text that matches both phrase lists, every confirmation handler takes its
  affirmative branch: the four simple collectors advance to the next state with the
  record untouched, the name collector does the same after reading \<open>name\<close> (a missing
  key raises there), the country collector enters \<open>final_confirmation\<close> (or raises on
  a missing key) and keeps the country, and the final confirmation calls the sink and
  finishes.
\<close>

theorem affirmative_wins_tie:
  assumes "is_positive_response u" and "is_negative_response u"
  shows "handle_name_collection u d cf True =
           (case d ''name'' of
              None \<Rightarrow> Inl (KeyError ''name'', d)
            | Some n \<Rightarrow> Inr (reply (''Excellent! Which company do you work for, '' @ n @ ''?'')
                              ''collect_company'' d ''company'' False))
         \<and> handle_company_collection u d cf True =
             Inr (reply ''Perfect! Now, what's your email address?'' ''collect_email'' d ''email'' False)
         \<and> handle_email_collection u d cf True =
             Inr (reply ''Excellent! Now, what's your phone number?'' ''collect_phone'' d ''phone'' False)
         \<and> handle_phone_collection u d cf True =
             Inr (reply ''Great! Which country are you from? This helps me format your number correctly.''
                    ''collect_country'' d ''country'' False)
         \<and> (case handle_country_collection u d cf True of
               Inl (err, d1) \<Rightarrow> (case err of KeyError k \<Rightarrow> d1 ''country'' = d ''country''
                                  | ValueError v \<Rightarrow> False)
             | Inr out \<Rightarrow> new_state out = ''final_confirmation''
                         \<and> updated_data out ''country'' = d ''country'')
         \<and> new_state (fst (handle_final_confirmation outcome now w u d cf aw)) = ''finished''
         \<and> sink_calls (snd (handle_final_confirmation outcome now w u d cf aw)) = sink_calls w @ [d]"
proof -
  have name: "handle_name_collection u d cf True =
           (case d ''name'' of
              None \<Rightarrow> Inl (KeyError ''name'', d)
            | Some n \<Rightarrow> Inr (reply (''Excellent! Which company do you work for, '' @ n @ ''?'')
                              ''collect_company'' d ''company'' False))"
    using assms(1) by (simp add: handle_name_collection_def)
  have company: "handle_company_collection u d cf True =
             Inr (reply ''Perfect! Now, what's your email address?'' ''collect_email'' d ''email'' False)"
    using assms(1) by (simp add: handle_company_collection_def)
  have email: "handle_email_collection u d cf True =
             Inr (reply ''Excellent! Now, what's your phone number?'' ''collect_phone'' d ''phone'' False)"
    using assms(1) by (simp add: handle_email_collection_def)
  have phone: "handle_phone_collection u d cf True =
             Inr (reply ''Great! Which country are you from? This helps me format your number correctly.''
                    ''collect_country'' d ''country'' False)"
    using assms(1) by (simp add: handle_phone_collection_def)
  have country: "(case handle_country_collection u d cf True of
               Inl (err, d1) \<Rightarrow> (case err of KeyError k \<Rightarrow> d1 ''country'' = d ''country''
                                  | ValueError v \<Rightarrow> False)
             | Inr out \<Rightarrow> new_state out = ''final_confirmation''
                         \<and> updated_data out ''country'' = d ''country'')"
    using assms(1)
    by (simp add: handle_country_collection_def country_summary_def reply_def Let_def
          split: option.splits)
  have final: "new_state (fst (handle_final_confirmation outcome now w u d cf aw)) = ''finished''
         \<and> sink_calls (snd (handle_final_confirmation outcome now w u d cf aw)) = sink_calls w @ [d]"
    using assms(1)
    by (cases outcome)
       (simp_all add: handle_final_confirmation_def save_visitor_data_def reply_def Let_def)
  from name company email phone country final show ?thesis by blast
qed

theorem affirmative_wins_tie_witness:
  "is_positive_response ''not good'' \<and> is_negative_response ''not good''
   \<and> handle_company_collection ''not good'' empty_user_data ''company'' True =
       Inr (reply ''Perfect! Now, what's your email address?'' ''collect_email''
              empty_user_data ''email'' False)
   \<and> new_state (fst (handle_final_confirmation SinkWrites ''2024-05-04 10:00:00''
         \<lparr>excel_file = None, sink_calls = [], log = []\<rparr> ''not good'' empty_user_data ''company'' False))
       = ''finished''"
proof -
  have h1: "is_positive_response ''not good''" by code_simp
  have h2: "is_negative_response ''not good''" by code_simp
  from affirmative_wins_tie [OF h1 h2, where d = empty_user_data and cf = "''company''"
      and outcome = SinkWrites and now = "''2024-05-04 10:00:00''"
      and w = "\<lparr>excel_file = None, sink_calls = [], log = []\<rparr>" and aw = False] h1 h2
  show ?thesis by blast
qed

subsection \<open>The final confirmation\<close>

lemma save_visitor_data_stamps:
  "fst (save_visitor_data outcome now d w) = d(''timestamp'' \<mapsto> now, ''event'' \<mapsto> ''Community Day'')"
  by (cases outcome) (simp_all add: save_visitor_data_def Let_def)

lemma save_visitor_data_calls:
  "sink_calls (snd (save_visitor_data outcome now d w)) = sink_calls w @ [d]"
  by (cases outcome) (simp_all add: save_visitor_data_def Let_def)

lemma empty_user_data_fields: "\<forall>k \<in> set field_order. empty_user_data k = Some []"
  by (simp add: field_order_def empty_user_data_def)

text \<open>
  C3, as the claim states it, fails: \<open>not good\<close> is an entry of the negative phrase list
  and contains the affirmative entry \<open>good\<close>; in \<open>final_confirmation\<close> it submits the
  record instead of resetting it.
\<close>

theorem final_confirmation_negative_counterexample:
  "is_negative_response ''not good''
   \<and> new_state (fst (handle_final_confirmation SinkWrites ''2024-05-04 10:00:00''
         \<lparr>excel_file = None, sink_calls = [], log = []\<rparr> ''not good''
         [''name'' \<mapsto> ''Asha Rao'', ''company'' \<mapsto> ''Operisoft'', ''email'' \<mapsto> ''asha@operisoft.com'',
          ''phone'' \<mapsto> ''+919876543210'', ''country'' \<mapsto> ''India''] [] False)) = ''finished''
   \<and> updated_data (fst (handle_final_confirmation SinkWrites ''2024-05-04 10:00:00''
         \<lparr>excel_file = None, sink_calls = [], log = []\<rparr> ''not good''
         [''name'' \<mapsto> ''Asha Rao'', ''company'' \<mapsto> ''Operisoft'', ''email'' \<mapsto> ''asha@operisoft.com'',
          ''phone'' \<mapsto> ''+919876543210'', ''country'' \<mapsto> ''India''] [] False)) ''name''
       = Some ''Asha Rao''"
proof -
  have pos: "is_positive_response ''not good''" by code_simp
  have neg: "is_negative_response ''not good''" by code_simp
  show ?thesis
    using pos neg
    by (simp add: handle_final_confirmation_def save_visitor_data_def reply_def Let_def)
qed

text \<open>
  C3, amended. In \<open>final_confirmation\<close>, for every record and every affirmative input
  the handler calls the sink exactly once with the record, moves to \<open>finished\<close> and
  returns the thank-you message with the stamped record, and this output does not
  depend on what the sink's write does. For every negative input that is not also
  affirmative it returns the record with all five fields empty, moves to
  \<open>collect_name\<close>, and leaves the sink alone.
\<close>

theorem final_confirmation_outcomes:
  "(is_positive_response u \<longrightarrow>
      fst (handle_final_confirmation outcome now w u d cf aw) =
        reply ''Fantastic! Your information has been successfully submitted. Thank you for visiting Operisoft at the Community Day event. We'll be in touch soon!''
          ''finished'' (d(''timestamp'' \<mapsto> now, ''event'' \<mapsto> ''Community Day'')) [] False
      \<and> sink_calls (snd (handle_final_confirmation outcome now w u d cf aw)) = sink_calls w @ [d]
      \<and> fst (handle_final_confirmation outcome now w u d cf aw) =
          fst (handle_final_confirmation outcome' now w u d cf aw))
   \<and> (is_negative_response u \<and> \<not> is_positive_response u \<longrightarrow>
      handle_final_confirmation outcome now w u d cf aw =
        (reply ''No problem! Let's start fresh. What's your name?''
           ''collect_name'' empty_user_data ''name'' False, w)
      \<and> (\<forall>k \<in> set field_order. empty_user_data k = Some []))"
proof (intro conjI impI)
  assume pos: "is_positive_response u"
  have shape: "\<And>oc. handle_final_confirmation oc now w u d cf aw =
      (reply ''Fantastic! Your information has been successfully submitted. Thank you for visiting Operisoft at the Community Day event. We'll be in touch soon!''
          ''finished'' (fst (save_visitor_data oc now d w)) [] False,
       snd (save_visitor_data oc now d w))"
    using pos by (simp add: handle_final_confirmation_def split_beta)
  show "fst (handle_final_confirmation outcome now w u d cf aw) =
        reply ''Fantastic! Your information has been successfully submitted. Thank you for visiting Operisoft at the Community Day event. We'll be in touch soon!''
          ''finished'' (d(''timestamp'' \<mapsto> now, ''event'' \<mapsto> ''Community Day'')) [] False"
    by (simp only: shape fst_conv save_visitor_data_stamps)
  show "sink_calls (snd (handle_final_confirmation outcome now w u d cf aw)) = sink_calls w @ [d]"
    by (simp only: shape snd_conv save_visitor_data_calls)
  show "fst (handle_final_confirmation outcome now w u d cf aw) =
          fst (handle_final_confirmation outcome' now w u d cf aw)"
    by (simp only: shape fst_conv save_visitor_data_stamps)
next
  assume neg: "is_negative_response u \<and> \<not> is_positive_response u"
  then show "handle_final_confirmation outcome now w u d cf aw =
        (reply ''No problem! Let's start fresh. What's your name?''
           ''collect_name'' empty_user_data ''name'' False, w)"
    by (simp add: handle_final_confirmation_def)
  show "\<forall>k \<in> set field_order. empty_user_data k = Some []"
    by (rule empty_user_data_fields)
qed

theorem final_confirmation_outcomes_witness:
  "is_positive_response ''yes''
   \<and> new_state (fst (handle_final_confirmation SinkFails ''2024-05-04 10:00:00''
        \<lparr>excel_file = None, sink_calls = [], log = []\<rparr> ''yes'' empty_user_data [] False)) = ''finished''
   \<and> sink_calls (snd (handle_final_confirmation SinkFails ''2024-05-04 10:00:00''
        \<lparr>excel_file = None, sink_calls = [], log = []\<rparr> ''yes'' empty_user_data [] False))
       = [empty_user_data]
   \<and> is_negative_response ''no'' \<and> \<not> is_positive_response ''no''
   \<and> new_state (fst (handle_final_confirmation SinkWrites ''2024-05-04 10:00:00''
        \<lparr>excel_file = None, sink_calls = [], log = []\<rparr> ''no''
        [''name'' \<mapsto> ''Asha Rao''] [] False)) = ''collect_name''"
proof -
  have h1: "is_positive_response ''yes''" by code_simp
  have h2: "is_negative_response ''no''" by code_simp
  have h3: "\<not> is_positive_response ''no''" by code_simp
  from final_confirmation_outcomes [where u = "''yes''" and outcome = SinkFails
      and now = "''2024-05-04 10:00:00''" and d = empty_user_data and cf = "[]" and aw = False
      and w = "\<lparr>excel_file = None, sink_calls = [], log = []\<rparr>"] h1
  have a: "new_state (fst (handle_final_confirmation SinkFails ''2024-05-04 10:00:00''
        \<lparr>excel_file = None, sink_calls = [], log = []\<rparr> ''yes'' empty_user_data [] False)) = ''finished''
   \<and> sink_calls (snd (handle_final_confirmation SinkFails ''2024-05-04 10:00:00''
        \<lparr>excel_file = None, sink_calls = [], log = []\<rparr> ''yes'' empty_user_data [] False))
       = [empty_user_data]"
    by (simp add: reply_def)
  from final_confirmation_outcomes [where u = "''no''" and outcome = SinkWrites
      and now = "''2024-05-04 10:00:00''" and d = "[''name'' \<mapsto> ''Asha Rao'']" and cf = "[]"
      and aw = False and w = "\<lparr>excel_file = None, sink_calls = [], log = []\<rparr>"] h2 h3
  have b: "new_state (fst (handle_final_confirmation SinkWrites ''2024-05-04 10:00:00''
        \<lparr>excel_file = None, sink_calls = [], log = []\<rparr> ''no''
        [''name'' \<mapsto> ''Asha Rao''] [] False)) = ''collect_name''"
    by (simp add: reply_def)
  from a b h1 h2 h3 show ?thesis by blast
qed

subsection \<open>Every turn returns\<close>

lemma state_names_eq:
  "state_names = [''greeting'', ''collect_name'', ''collect_company'', ''collect_email'',
                  ''collect_phone'', ''collect_country'', ''final_confirmation'', ''finished'']"
  by (simp add: state_names_def conversation_states_def)

lemma random_choice_off_topic: "random_choice draw off_topic_responses \<noteq> []"
proof -
  have "draw mod length off_topic_responses < length off_topic_responses"
    by (simp add: off_topic_responses_def)
  then have "random_choice draw off_topic_responses \<in> set off_topic_responses"
    unfolding random_choice_def by (rule nth_mem)
  then show ?thesis
    by (auto simp add: off_topic_responses_def)
qed

lemma handle_greeting_wf: "well_formed (handle_greeting draw u d cf aw)"
  by (simp add: well_formed_def state_names_eq handle_greeting_def handle_off_topic_def
        reply_def Let_def random_choice_off_topic)

lemma handle_name_collection_wf:
  "handle_name_collection u d cf aw = Inr out \<Longrightarrow> well_formed out"
  by (auto simp add: well_formed_def state_names_eq handle_name_collection_def reply_def
        reply_manual_def Let_def split: if_splits option.splits)

lemma handle_company_collection_wf:
  "handle_company_collection u d cf aw = Inr out \<Longrightarrow> well_formed out"
  by (auto simp add: well_formed_def state_names_eq handle_company_collection_def reply_def
        reply_manual_def Let_def split: if_splits)

lemma handle_email_collection_wf:
  "handle_email_collection u d cf aw = Inr out \<Longrightarrow> well_formed out"
  by (auto simp add: well_formed_def state_names_eq handle_email_collection_def reply_def
        reply_manual_def Let_def split: if_splits)

lemma handle_phone_collection_wf:
  "handle_phone_collection u d cf aw = Inr out \<Longrightarrow> well_formed out"
  by (auto simp add: well_formed_def state_names_eq handle_phone_collection_def reply_def
        reply_manual_def Let_def split: if_splits)

lemma handle_country_collection_wf:
  "handle_country_collection u d cf aw = Inr out \<Longrightarrow> well_formed out"
  by (auto simp add: well_formed_def state_names_eq handle_country_collection_def
        country_summary_def reply_def reply_manual_def Let_def
        split: if_splits option.splits)

lemma handle_final_confirmation_wf:
  "well_formed (fst (handle_final_confirmation outcome now w u d cf aw))"
  by (simp add: well_formed_def state_names_eq handle_final_confirmation_def reply_def
        split_beta)

text \<open>The dispatch, state by state: a name outside the table goes to the greeting handler.\<close>

lemma process_conversation_cases:
  "process_conversation e w u st d cf aw =
     (if st = ''collect_name'' then (handle_name_collection u d cf aw, w)
      else if st = ''collect_company'' then (handle_company_collection u d cf aw, w)
      else if st = ''collect_email'' then (handle_email_collection u d cf aw, w)
      else if st = ''collect_phone'' then (handle_phone_collection u d cf aw, w)
      else if st = ''collect_country'' then (handle_country_collection u d cf aw, w)
      else if st = ''final_confirmation'' then
        (Inr (fst (handle_final_confirmation (env_sink e) (env_now e) w u d cf aw)),
         snd (handle_final_confirmation (env_sink e) (env_now e) w u d cf aw))
      else (Inr (handle_greeting (env_draw e) u d cf aw), w))"
  by (simp add: process_conversation_def conversation_states_def split_beta)

lemma process_conversation_unknown:
  "map_of conversation_states st = None \<Longrightarrow>
     process_conversation e w u st d cf aw = (Inr (handle_greeting (env_draw e) u d cf aw), w)"
  by (simp add: process_conversation_def)

lemma process_conversation_wf:
  "fst (process_conversation e w u st d cf aw) = Inr out \<Longrightarrow> well_formed out"
  using handle_greeting_wf [of "env_draw e" u d cf aw]
    handle_final_confirmation_wf [of "env_sink e" "env_now e" w u d cf aw]
  by (auto simp add: process_conversation_cases split: if_splits
        dest: handle_name_collection_wf handle_company_collection_wf handle_email_collection_wf
          handle_phone_collection_wf handle_country_collection_wf)

lemma process_conversation_raises:
  "fst (process_conversation e w u st d cf aw) = Inl x \<Longrightarrow> st \<in> set state_names"
  by (auto simp add: process_conversation_cases state_names_eq split: if_splits)

text \<open>The handler itself is not total: it raises on a record without the key it reads.\<close>

lemma process_conversation_can_raise:
  "fst (process_conversation e w ''yes'' ''collect_name'' Map.empty ''name'' True) =
     Inl (KeyError ''name'', Map.empty)"
proof -
  have "is_positive_response ''yes''" by code_simp
  then show ?thesis
    by (simp add: process_conversation_cases handle_name_collection_def)
qed

text \<open>
  C4. The turn operation of the route is total: for every input text, state name,
  record and flag it returns a well-formed turn output. When the handler returns, that
  is the handler's output; when the handler raises, it is the apology, in the state
  the turn came in with and with the record as the handler left it. A state name
  outside the dispatch table is served by the greeting handler.
\<close>

theorem turn_is_total:
  "\<exists>out w1. route_process_conversation e w u st d cf aw = (out, w1)
     \<and> well_formed out
     \<and> (case fst (process_conversation e w u st d cf aw) of
          Inr result \<Rightarrow> out = result
        | Inl (err, d1) \<Rightarrow>
            out = reply ''I apologize, there was an error. Could you please repeat that?''
                    st d1 cf False)
     \<and> (map_of conversation_states st = None \<longrightarrow>
          out = handle_greeting (env_draw e) u d cf aw)"
proof (cases "fst (process_conversation e w u st d cf aw)")
  case (Inr result)
  then have route: "route_process_conversation e w u st d cf aw =
                      (result, snd (process_conversation e w u st d cf aw))"
    by (cases "process_conversation e w u st d cf aw")
       (simp add: route_process_conversation_def)
  have wf: "well_formed result"
    using Inr by (rule process_conversation_wf)
  have unknown: "map_of conversation_states st = None \<longrightarrow>
                   result = handle_greeting (env_draw e) u d cf aw"
    using Inr by (auto simp add: process_conversation_unknown)
  from route wf unknown Inr show ?thesis by simp
next
  case (Inl x)
  obtain err d1 where x: "x = (err, d1)" by (cases x)
  let ?out = "reply ''I apologize, there was an error. Could you please repeat that?'' st d1 cf False"
  from Inl x have route: "fst (route_process_conversation e w u st d cf aw) = ?out"
    by (cases "process_conversation e w u st d cf aw")
       (simp add: route_process_conversation_def)
  have "st \<in> set state_names"
    using Inl by (rule process_conversation_raises)
  then have wf: "well_formed ?out"
    by (simp add: well_formed_def reply_def)
  have unknown: "map_of conversation_states st \<noteq> None"
  proof
    assume "map_of conversation_states st = None"
    then have "fst (process_conversation e w u st d cf aw) =
                 Inr (handle_greeting (env_draw e) u d cf aw)"
      by (simp add: process_conversation_unknown)
    with Inl show False by simp
  qed
  from route wf unknown Inl x show ?thesis
    by (cases "route_process_conversation e w u st d cf aw") auto
qed

theorem turn_is_total_witness:
  "well_formed (fst (route_process_conversation \<lparr>env_draw = 0, env_now = ''2024-05-04 10:00:00'', env_sink = SinkWrites\<rparr>
        \<lparr>excel_file = None, sink_calls = [], log = []\<rparr> ''yes'' ''collect_name'' Map.empty ''name'' True))
   \<and> fst (route_process_conversation \<lparr>env_draw = 0, env_now = ''2024-05-04 10:00:00'', env_sink = SinkWrites\<rparr>
        \<lparr>excel_file = None, sink_calls = [], log = []\<rparr> ''yes'' ''collect_name'' Map.empty ''name'' True) =
       reply ''I apologize, there was an error. Could you please repeat that?''
         ''collect_name'' Map.empty ''name'' False
   \<and> map_of conversation_states ''anything else'' = None
   \<and> fst (route_process_conversation \<lparr>env_draw = 0, env_now = ''2024-05-04 10:00:00'', env_sink = SinkWrites\<rparr>
        \<lparr>excel_file = None, sink_calls = [], log = []\<rparr> [] ''anything else'' Map.empty [] False) =
       handle_greeting 0 [] Map.empty [] False"
proof -
  let ?e = "\<lparr>env_draw = 0, env_now = ''2024-05-04 10:00:00'', env_sink = SinkWrites\<rparr>"
  let ?w = "\<lparr>excel_file = None, sink_calls = [], log = []\<rparr>"
  have unknown: "map_of conversation_states ''anything else'' = None"
    by (simp add: conversation_states_def)
  from turn_is_total [of ?e ?w "''yes''" "''collect_name''" Map.empty "''name''" True]
    process_conversation_can_raise [of ?e ?w]
  have a: "well_formed (fst (route_process_conversation ?e ?w ''yes'' ''collect_name'' Map.empty ''name'' True))
   \<and> fst (route_process_conversation ?e ?w ''yes'' ''collect_name'' Map.empty ''name'' True) =
       reply ''I apologize, there was an error. Could you please repeat that?''
         ''collect_name'' Map.empty ''name'' False"
    by auto
  from turn_is_total [of ?e ?w "[]" "''anything else''" Map.empty "[]" False] unknown
  have b: "fst (route_process_conversation ?e ?w [] ''anything else'' Map.empty [] False) =
       handle_greeting 0 [] Map.empty [] False"
    by auto
  from a b unknown show ?thesis by blast
qed

subsection \<open>The confirmation prompt\<close>

lemma startswith_append: "startswith (p @ b) p"
  by (induction p) simp_all

lemma str_in_prefix: "startswith s p \<Longrightarrow> str_in p s"
  by (cases s) (auto elim: startswith.elims)

lemma str_in_append: "str_in p (a @ p @ b)"
proof (induction a)
  case Nil
  show ?case by (simp add: str_in_prefix startswith_append)
next
  case (Cons c a)
  then show ?case by simp
qed

lemma restates_four:
  "str_in n (A @ n @ B @ c @ C @ e @ D @ p @ E)
   \<and> str_in c (A @ n @ B @ c @ C @ e @ D @ p @ E)
   \<and> str_in e (A @ n @ B @ c @ C @ e @ D @ p @ E)
   \<and> str_in p (A @ n @ B @ c @ C @ e @ D @ p @ E)"
  using str_in_append [of n A "B @ c @ C @ e @ D @ p @ E"]
    str_in_append [of c "A @ n @ B" "C @ e @ D @ p @ E"]
    str_in_append [of e "A @ n @ B @ c @ C" "D @ p @ E"]
    str_in_append [of p "A @ n @ B @ c @ C @ e @ D" E]
  by simp

lemma country_summary_restates:
  assumes "country_summary d = Inr text"
  shows "\<exists>n c e p. d ''name'' = Some n \<and> d ''company'' = Some c \<and> d ''email'' = Some e \<and>
       d ''phone'' = Some p \<and>
       str_in n text \<and> str_in c text \<and> str_in e text \<and> str_in p text"
proof -
  from assms obtain n c e p where
    keys: "d ''name'' = Some n" "d ''company'' = Some c" "d ''email'' = Some e"
      "d ''phone'' = Some p"
    and shape: "text = ''Perfect! Let me confirm your details: Name: '' @ n @ '', Company: '' @ c @
             '', Email: '' @ e @ '', Phone: '' @ p @ ''. Should I submit this information?''"
    by (auto simp add: country_summary_def split: option.splits)
  show ?thesis
    unfolding shape using keys restates_four by blast
qed

lemma manual_summary_restates:
  assumes "manual_summary d = Inr text"
  shows "\<exists>n c e p. d ''name'' = Some n \<and> d ''company'' = Some c \<and> d ''email'' = Some e \<and>
       d ''phone'' = Some p \<and>
       str_in n text \<and> str_in c text \<and> str_in e text \<and> str_in p text"
proof -
  from assms obtain n c e p where
    keys: "d ''name'' = Some n" "d ''company'' = Some c" "d ''email'' = Some e"
      "d ''phone'' = Some p"
    and shape: "text = ''Perfect! Let me confirm: Name: '' @ n @ '', Company: '' @ c @
             '', Email: '' @ e @ '', Phone: '' @ p @ ''. Should I submit this?''"
    by (auto simp add: manual_summary_def split: option.splits)
  show ?thesis
    unfolding shape using keys restates_four by blast
qed

lemma country_enters_final:
  assumes "handle_country_collection u d cf aw = Inr out"
    and "new_state out = ''final_confirmation''"
  shows "country_summary (updated_data out) = Inr (bot_response out)"
  using assms
  by (auto simp add: handle_country_collection_def reply_def reply_manual_def Let_def
        split: if_splits option.splits sum.splits)

lemma manual_enters_final:
  assumes "handle_manual_input field v d = Inr out"
    and "new_state out = ''final_confirmation''"
  shows "manual_summary (updated_data out) = Inr (bot_response out)"
  using assms
  by (auto simp add: handle_manual_input_def reply_def Let_def
        split: if_splits option.splits sum.splits)

text \<open>
  C1, as the claim states it, fails on both paths: the prompt names four values, and
  the country is not among them.
\<close>

theorem confirmation_prompt_country_counterexample:
  "is_positive_response ''yes''
   \<and> handle_country_collection ''yes''
          [''name'' \<mapsto> ''Marie Curie'', ''company'' \<mapsto> ''Sorbonne'', ''email'' \<mapsto> ''marie@sorbonne.fr'',
           ''phone'' \<mapsto> ''123456789'', ''country'' \<mapsto> ''France''] ''country'' True =
       Inr (reply ''Perfect! Let me confirm your details: Name: Marie Curie, Company: Sorbonne, Email: marie@sorbonne.fr, Phone: +33123456789. Should I submit this information?''
              ''final_confirmation''
              ([''name'' \<mapsto> ''Marie Curie'', ''company'' \<mapsto> ''Sorbonne'', ''email'' \<mapsto> ''marie@sorbonne.fr'',
           ''phone'' \<mapsto> ''123456789'', ''country'' \<mapsto> ''France''](''phone'' \<mapsto> ''+33123456789'')) [] False)
   \<and> \<not> str_in ''France'' ''Perfect! Let me confirm your details: Name: Marie Curie, Company: Sorbonne, Email: marie@sorbonne.fr, Phone: +33123456789. Should I submit this information?''
   \<and> handle_manual_input ''country'' ''France''
          [''name'' \<mapsto> ''Marie Curie'', ''company'' \<mapsto> ''Sorbonne'', ''email'' \<mapsto> ''marie@sorbonne.fr'',
           ''phone'' \<mapsto> ''123456789'', ''country'' \<mapsto> []] =
       Inr (reply ''Perfect! Let me confirm: Name: Marie Curie, Company: Sorbonne, Email: marie@sorbonne.fr, Phone: 123456789. Should I submit this?''
              ''final_confirmation''
              ([''name'' \<mapsto> ''Marie Curie'', ''company'' \<mapsto> ''Sorbonne'', ''email'' \<mapsto> ''marie@sorbonne.fr'',
           ''phone'' \<mapsto> ''123456789'', ''country'' \<mapsto> []](''country'' \<mapsto> ''France'')) [] False)
   \<and> \<not> str_in ''France'' ''Perfect! Let me confirm: Name: Marie Curie, Company: Sorbonne, Email: marie@sorbonne.fr, Phone: 123456789. Should I submit this?''"
proof -
  have pos: "is_positive_response ''yes''" by code_simp
  have fmt: "format_phone_with_country ''123456789'' ''France'' = ''+33123456789''" by code_simp
  have a: "handle_country_collection ''yes''
          [''name'' \<mapsto> ''Marie Curie'', ''company'' \<mapsto> ''Sorbonne'', ''email'' \<mapsto> ''marie@sorbonne.fr'',
           ''phone'' \<mapsto> ''123456789'', ''country'' \<mapsto> ''France''] ''country'' True =
       Inr (reply ''Perfect! Let me confirm your details: Name: Marie Curie, Company: Sorbonne, Email: marie@sorbonne.fr, Phone: +33123456789. Should I submit this information?''
              ''final_confirmation''
              ([''name'' \<mapsto> ''Marie Curie'', ''company'' \<mapsto> ''Sorbonne'', ''email'' \<mapsto> ''marie@sorbonne.fr'',
           ''phone'' \<mapsto> ''123456789'', ''country'' \<mapsto> ''France''](''phone'' \<mapsto> ''+33123456789'')) [] False)"
    using pos fmt by (simp add: handle_country_collection_def country_summary_def)
  have b: "\<not> str_in ''France'' ''Perfect! Let me confirm your details: Name: Marie Curie, Company: Sorbonne, Email: marie@sorbonne.fr, Phone: +33123456789. Should I submit this information?''"
    by code_simp
  have str: "strip ''France'' = ''France''" by code_simp
  have c: "handle_manual_input ''country'' ''France''
          [''name'' \<mapsto> ''Marie Curie'', ''company'' \<mapsto> ''Sorbonne'', ''email'' \<mapsto> ''marie@sorbonne.fr'',
           ''phone'' \<mapsto> ''123456789'', ''country'' \<mapsto> []] =
       Inr (reply ''Perfect! Let me confirm: Name: Marie Curie, Company: Sorbonne, Email: marie@sorbonne.fr, Phone: 123456789. Should I submit this?''
              ''final_confirmation''
              ([''name'' \<mapsto> ''Marie Curie'', ''company'' \<mapsto> ''Sorbonne'', ''email'' \<mapsto> ''marie@sorbonne.fr'',
           ''phone'' \<mapsto> ''123456789'', ''country'' \<mapsto> []](''country'' \<mapsto> ''France'')) [] False)"
    using str by (simp add: handle_manual_input_def manual_summary_def field_order_def)
  have d: "\<not> str_in ''France'' ''Perfect! Let me confirm: Name: Marie Curie, Company: Sorbonne, Email: marie@sorbonne.fr, Phone: 123456789. Should I submit this?''"
    by code_simp
  from pos a b c d show ?thesis by blast
qed

text \<open>
  C1, amended. For every record, whenever the country handler or the manual-input
  entry point enters \<open>final_confirmation\<close>, the response restates four of the values
  of the returned record: name, company, email and phone (the phone as it is stored,
  after the reformatting). The country is not restated.
\<close>

theorem confirmation_prompt_restates_four:
  assumes "handle_country_collection u d cf aw = Inr out \<or> handle_manual_input field v d = Inr out"
    and "new_state out = ''final_confirmation''"
  shows "\<exists>n c e p. updated_data out ''name'' = Some n \<and> updated_data out ''company'' = Some c
           \<and> updated_data out ''email'' = Some e \<and> updated_data out ''phone'' = Some p
           \<and> str_in n (bot_response out) \<and> str_in c (bot_response out)
           \<and> str_in e (bot_response out) \<and> str_in p (bot_response out)"
  using assms country_enters_final [of u d cf aw out] manual_enters_final [of field v d out]
    country_summary_restates [of "updated_data out" "bot_response out"]
    manual_summary_restates [of "updated_data out" "bot_response out"]
  by blast

theorem confirmation_prompt_restates_four_witness:
  "handle_manual_input ''country'' ''France''
          [''name'' \<mapsto> ''Marie Curie'', ''company'' \<mapsto> ''Sorbonne'', ''email'' \<mapsto> ''marie@sorbonne.fr'',
           ''phone'' \<mapsto> ''123456789'', ''country'' \<mapsto> []] =
       Inr (reply ''Perfect! Let me confirm: Name: Marie Curie, Company: Sorbonne, Email: marie@sorbonne.fr, Phone: 123456789. Should I submit this?''
              ''final_confirmation''
              ([''name'' \<mapsto> ''Marie Curie'', ''company'' \<mapsto> ''Sorbonne'', ''email'' \<mapsto> ''marie@sorbonne.fr'',
           ''phone'' \<mapsto> ''123456789'', ''country'' \<mapsto> []](''country'' \<mapsto> ''France'')) [] False)
   \<and> str_in ''Marie Curie'' ''Perfect! Let me confirm: Name: Marie Curie, Company: Sorbonne, Email: marie@sorbonne.fr, Phone: 123456789. Should I submit this?''
   \<and> str_in ''Sorbonne'' ''Perfect! Let me confirm: Name: Marie Curie, Company: Sorbonne, Email: marie@sorbonne.fr, Phone: 123456789. Should I submit this?''
   \<and> str_in ''marie@sorbonne.fr'' ''Perfect! Let me confirm: Name: Marie Curie, Company: Sorbonne, Email: marie@sorbonne.fr, Phone: 123456789. Should I submit this?''
   \<and> str_in ''123456789'' ''Perfect! Let me confirm: Name: Marie Curie, Company: Sorbonne, Email: marie@sorbonne.fr, Phone: 123456789. Should I submit this?''"
proof -
  let ?out = "reply ''Perfect! Let me confirm: Name: Marie Curie, Company: Sorbonne, Email: marie@sorbonne.fr, Phone: 123456789. Should I submit this?''
              ''final_confirmation''
              ([''name'' \<mapsto> ''Marie Curie'', ''company'' \<mapsto> ''Sorbonne'', ''email'' \<mapsto> ''marie@sorbonne.fr'',
           ''phone'' \<mapsto> ''123456789'', ''country'' \<mapsto> []](''country'' \<mapsto> ''France'')) [] False"
  have str: "strip ''France'' = ''France''" by code_simp
  have run: "handle_manual_input ''country'' ''France''
          [''name'' \<mapsto> ''Marie Curie'', ''company'' \<mapsto> ''Sorbonne'', ''email'' \<mapsto> ''marie@sorbonne.fr'',
           ''phone'' \<mapsto> ''123456789'', ''country'' \<mapsto> []] = Inr ?out"
    using str by (simp add: handle_manual_input_def manual_summary_def field_order_def)
  have st: "new_state ?out = ''final_confirmation''"
    by (simp add: reply_def)
  from confirmation_prompt_restates_four [OF disjI2, OF run st]
  have "str_in ''Marie Curie'' (bot_response ?out) \<and> str_in ''Sorbonne'' (bot_response ?out)
        \<and> str_in ''marie@sorbonne.fr'' (bot_response ?out)
        \<and> str_in ''123456789'' (bot_response ?out)"
    by (simp add: reply_def)
  with run show ?thesis by (simp add: reply_def)
qed

subsection \<open>The phone extractor and the standalone validation\<close>

lemma startswith_plus: "startswith v ''+'' \<longleftrightarrow> v \<noteq> [] \<and> hd v = CHR ''+''"
  by (cases v) auto

lemma plus_is_no_digit: "\<not> is_digit CHR ''+''"
  by (simp add: is_digit_def digit_chars_def)

lemma phone_chars_of_chars:
  "list_all (\<lambda>c. is_digit c \<or> c = CHR ''+'') (phone_chars_of text)"
  by (simp add: phone_chars_of_def Let_def list_all_iff)

lemma digits_iff_no_plus:
  "list_all (\<lambda>c. is_digit c \<or> c = CHR ''+'') s \<Longrightarrow>
     list_all is_digit s \<longleftrightarrow> CHR ''+'' \<notin> set s"
  using plus_is_no_digit by (auto simp add: list_all_iff)

lemma extract_phone_is_phone_chars:
  "extract_phone text = Some v \<Longrightarrow>
     v = phone_chars_of text \<and>
     8 \<le> length (if startswith v ''+'' then tl v else v) \<and>
     length (if startswith v ''+'' then tl v else v) \<le> 15"
  by (auto simp add: extract_phone_def Let_def split: if_splits)

lemma validate_phone_iff:
  assumes chars: "list_all (\<lambda>c. is_digit c \<or> c = CHR ''+'') v"
    and lo: "8 \<le> length (if startswith v ''+'' then tl v else v)"
    and hi: "length (if startswith v ''+'' then tl v else v) \<le> 15"
  shows "validate_phone v \<longleftrightarrow> CHR ''+'' \<notin> set (tl v)"
proof (cases v)
  case Nil
  with lo show ?thesis by simp
next
  case (Cons c cs)
  from chars Cons have rest: "list_all (\<lambda>c. is_digit c \<or> c = CHR ''+'') cs"
    and first: "is_digit c \<or> c = CHR ''+''"
    by simp_all
  show ?thesis
  proof (cases "c = CHR ''+''")
    case True
    with Cons lo hi have "validate_phone v \<longleftrightarrow> list_all is_digit cs"
      by (auto simp add: validate_phone_def isdigit_def Let_def)
    with digits_iff_no_plus [OF rest] Cons show ?thesis by simp
  next
    case False
    with first have "is_digit c" by simp
    with Cons False lo hi have "validate_phone v \<longleftrightarrow> list_all is_digit cs"
      by (auto simp add: validate_phone_def isdigit_def)
    with digits_iff_no_plus [OF rest] Cons show ?thesis by simp
  qed
qed

text \<open>
  C7, as the claim states it, fails: the extractor keeps every \<open>+\<close> of the text, so it
  returns \<open>1234+5678\<close>, which the standalone validation refuses.
\<close>

theorem extract_phone_validation_counterexample:
  "extract_phone ''1234+5678'' = Some ''1234+5678'' \<and> \<not> validate_phone ''1234+5678''"
  by code_simp

text \<open>
  C7, amended. If the phone extractor returns a value, the value consists of digits
  and \<open>+\<close> signs only, and its length, not counting one leading \<open>+\<close>, is between 8 and
  15. It satisfies the standalone validation exactly when no \<open>+\<close> stands behind its
  first character, and the phone-collecting handler stores it only in that case:
  otherwise the record stays as it was.
\<close>

theorem extracted_phone_shape:
  assumes "extract_phone text = Some v"
  shows "list_all (\<lambda>c. is_digit c \<or> c = CHR ''+'') v
         \<and> 8 \<le> length (if startswith v ''+'' then tl v else v)
         \<and> length (if startswith v ''+'' then tl v else v) \<le> 15
         \<and> (validate_phone v \<longleftrightarrow> CHR ''+'' \<notin> set (tl v))
         \<and> data_after (handle_phone_collection text d cf False) =
             (if validate_phone v then d(''phone'' \<mapsto> v) else d)"
proof -
  from extract_phone_is_phone_chars [OF assms]
  have v: "v = phone_chars_of text"
    and lo: "8 \<le> length (if startswith v ''+'' then tl v else v)"
    and hi: "length (if startswith v ''+'' then tl v else v) \<le> 15"
    by blast+
  from v have chars: "list_all (\<lambda>c. is_digit c \<or> c = CHR ''+'') v"
    by (simp add: phone_chars_of_chars)
  have valid: "validate_phone v \<longleftrightarrow> CHR ''+'' \<notin> set (tl v)"
    using chars lo hi by (rule validate_phone_iff)
  from lo have "v \<noteq> []" by (auto split: if_splits)
  then have stored: "data_after (handle_phone_collection text d cf False) =
             (if validate_phone v then d(''phone'' \<mapsto> v) else d)"
    using assms
    by (simp add: handle_phone_collection_def data_after_def truthy_def reply_def
          reply_manual_def)
  from chars lo hi valid stored show ?thesis by blast
qed

theorem extracted_phone_shape_witness:
  "extract_phone ''plus nine one 98765 43210'' = Some ''+919876543210''
   \<and> validate_phone ''+919876543210''
   \<and> data_after (handle_phone_collection ''plus nine one 98765 43210'' empty_user_data
        ''phone'' False) = empty_user_data(''phone'' \<mapsto> ''+919876543210'')"
proof -
  have h: "extract_phone ''plus nine one 98765 43210'' = Some ''+919876543210''"
    by code_simp
  from extracted_phone_shape [OF h, of empty_user_data "''phone''"] h
  show ?thesis by simp
qed

subsection \<open>The email extractor\<close>

text \<open>
  C8, as the claim states it, fails in its second half: the table is applied in the
  order it is written, and there the generic \<open>dot com\<close> (place 21) stands before the
  provider join \<open>gmail dot com\<close> (place 25) that contains it.
\<close>

theorem replacements_order_counterexample:
  "\<not> specific_first (map fst replacements)
   \<and> index_of (map fst replacements) ''dot com'' = Some 21
   \<and> index_of (map fst replacements) ''gmail dot com'' = Some 25
   \<and> str_in ''dot com'' ''gmail dot com''"
  by code_simp

text \<open>
  C8, amended. The email extractor maps \<open>John DOT Smith AT gmail DOT com\<close> to exactly
  \<open>john.smith@gmail.com\<close>. The substitution table is applied in the order it is
  written: the longer \<open> at the rate \<close> stands before \<open> at \<close>, and no key among the
  first 25 contains an earlier one; the four provider joins stand last, behind the
  generic \<open> dot \<close> (place 4) and \<open>dot com\<close> (place 21), which each of them contains.
\<close>

theorem email_round_trip:
  "extract_email ''John DOT Smith AT gmail DOT com'' = Some ''john.smith@gmail.com''
   \<and> map fst (take 2 replacements) = ['' at the rate '', '' at '']
   \<and> specific_first (map fst (take 25 replacements))
   \<and> map fst (drop 25 replacements) =
       [''gmail dot com'', ''yahoo dot com'', ''hotmail dot com'', ''outlook dot com'']
   \<and> index_of (map fst replacements) '' dot '' = Some 4
   \<and> index_of (map fst replacements) ''dot com'' = Some 21
   \<and> list_all (\<lambda>k. str_in '' dot '' k \<and> str_in ''dot com'' k) (map fst (drop 25 replacements))"
  by code_simp

subsection \<open>Two negative answers in a row\<close>

lemma no_is_negative: "is_negative_response ''no'' \<and> \<not> is_positive_response ''no''"
  by code_simp

lemma extract_from_no:
  "extract_name ''no'' = Some ''No''" "extract_company ''no'' = Some ''No''"
  "extract_email ''no'' = None" "extract_phone ''no'' = None"
  "extract_country ''no'' = Some ''No''" "strip ''No'' = ''No''"
  by code_simp+

text \<open>
  C9, as the claim states it, fails: the first \<open>no\<close> ends the confirmation, so the
  second \<open>no\<close> is read as the value of the field. In the name state the extractor
  accepts it, and the name becomes \<open>No\<close>.
\<close>

theorem repeated_no_counterexample:
  "fst (process_conversation \<lparr>env_draw = 0, env_now = ''2024-05-04 10:00:00'', env_sink = SinkWrites\<rparr> \<lparr>excel_file = None, sink_calls = [], log = []\<rparr> ''no'' ''collect_name''
          [''name'' \<mapsto> ''Asha Rao'', ''company'' \<mapsto> ''Operisoft'', ''email'' \<mapsto> [], ''phone'' \<mapsto> [], ''country'' \<mapsto> []] ''name'' True) =
     Inr (reply_manual
            ''No problem! Please tell me your correct name, or if you prefer, you can type it manually.''
            ''collect_name'' ([''name'' \<mapsto> ''Asha Rao'', ''company'' \<mapsto> ''Operisoft'', ''email'' \<mapsto> [], ''phone'' \<mapsto> [], ''country'' \<mapsto> []](''name'' \<mapsto> [])) ''name'')
   \<and> fst (process_conversation \<lparr>env_draw = 0, env_now = ''2024-05-04 10:00:00'', env_sink = SinkWrites\<rparr> \<lparr>excel_file = None, sink_calls = [], log = []\<rparr> ''no'' ''collect_name''
          ([''name'' \<mapsto> ''Asha Rao'', ''company'' \<mapsto> ''Operisoft'', ''email'' \<mapsto> [], ''phone'' \<mapsto> [], ''country'' \<mapsto> []](''name'' \<mapsto> [])) ''name'' False) =
     Inr (reply ''I heard your name as No. Is that correct?''
            ''collect_name'' ([''name'' \<mapsto> ''Asha Rao'', ''company'' \<mapsto> ''Operisoft'', ''email'' \<mapsto> [], ''phone'' \<mapsto> [], ''country'' \<mapsto> []](''name'' \<mapsto> ''No'')) ''name'' True)"
  using no_is_negative extract_from_no
  by (simp add: process_conversation_cases handle_name_collection_def truthy_def)

text \<open>
  C9, amended. In each of the five collecting states and for every record, \<open>no\<close>
  given to a confirmation keeps the state, clears the field of the state, leaves every
  other field unchanged and ends the confirmation; \<open>no\<close> given again to a confirmation
  (the flag still set) has the same output. On the resulting turn, which awaits no
  confirmation, the second \<open>no\<close> goes to the extractor: the state and every other
  field stay unchanged; in the email and phone states the field stays cleared, and in
  the name, company and country states it becomes \<open>No\<close> and a confirmation is awaited.
\<close>

theorem repeated_no:
  assumes "(st, field, after) \<in> set
             [(''collect_name'', ''name'', ''No''), (''collect_company'', ''company'', ''No''),
              (''collect_email'', ''email'', []), (''collect_phone'', ''phone'', []),
              (''collect_country'', ''country'', ''No'')]"
  shows "(\<exists>out. fst (process_conversation e w ''no'' st d cf True) = Inr out
            \<and> new_state out = st \<and> updated_data out = d(field \<mapsto> [])
            \<and> current_field out = field \<and> \<not> awaiting_confirmation out)
         \<and> fst (process_conversation e w ''no'' st (d(field \<mapsto> [])) field True) =
             fst (process_conversation e w ''no'' st d cf True)
         \<and> (\<exists>out. fst (process_conversation e w ''no'' st (d(field \<mapsto> [])) field False) = Inr out
            \<and> new_state out = st \<and> updated_data out = d(field \<mapsto> after)
            \<and> current_field out = field \<and> awaiting_confirmation out = (after \<noteq> []))"
proof -
  from assms have "st = ''collect_name'' \<and> field = ''name'' \<and> after = ''No''
    \<or> st = ''collect_company'' \<and> field = ''company'' \<and> after = ''No''
    \<or> st = ''collect_email'' \<and> field = ''email'' \<and> after = []
    \<or> st = ''collect_phone'' \<and> field = ''phone'' \<and> after = []
    \<or> st = ''collect_country'' \<and> field = ''country'' \<and> after = ''No''"
    by simp
  then show ?thesis
  proof (elim disjE conjE)
    assume "st = ''collect_name''" "field = ''name''" "after = ''No''"
    then show ?thesis
      using no_is_negative extract_from_no
      by (simp add: process_conversation_cases handle_name_collection_def truthy_def
            reply_def reply_manual_def)
  next
    assume "st = ''collect_company''" "field = ''company''" "after = ''No''"
    then show ?thesis
      using no_is_negative extract_from_no
      by (simp add: process_conversation_cases handle_company_collection_def truthy_def
            reply_def reply_manual_def)
  next
    assume "st = ''collect_email''" "field = ''email''" "after = []"
    then show ?thesis
      using no_is_negative extract_from_no
      by (simp add: process_conversation_cases handle_email_collection_def truthy_def
            reply_def reply_manual_def)
  next
    assume "st = ''collect_phone''" "field = ''phone''" "after = []"
    then show ?thesis
      using no_is_negative extract_from_no
      by (simp add: process_conversation_cases handle_phone_collection_def truthy_def
            reply_def reply_manual_def)
  next
    assume "st = ''collect_country''" "field = ''country''" "after = ''No''"
    then show ?thesis
      using no_is_negative extract_from_no
      by (simp add: process_conversation_cases handle_country_collection_def truthy_def
            reply_def reply_manual_def)
  qed
qed

theorem repeated_no_witness:
  "new_state (projr (fst (process_conversation \<lparr>env_draw = 0, env_now = ''2024-05-04 10:00:00'', env_sink = SinkWrites\<rparr> \<lparr>excel_file = None, sink_calls = [], log = []\<rparr> ''no'' ''collect_email''
       [''name'' \<mapsto> ''Asha Rao'', ''company'' \<mapsto> ''Operisoft'', ''email'' \<mapsto> [], ''phone'' \<mapsto> [], ''country'' \<mapsto> []] ''email'' True))) = ''collect_email''
   \<and> data_after (fst (process_conversation \<lparr>env_draw = 0, env_now = ''2024-05-04 10:00:00'', env_sink = SinkWrites\<rparr> \<lparr>excel_file = None, sink_calls = [], log = []\<rparr> ''no'' ''collect_email''
       ([''name'' \<mapsto> ''Asha Rao'', ''company'' \<mapsto> ''Operisoft'', ''email'' \<mapsto> [], ''phone'' \<mapsto> [], ''country'' \<mapsto> []](''email'' \<mapsto> [])) ''email'' False)) = [''name'' \<mapsto> ''Asha Rao'', ''company'' \<mapsto> ''Operisoft'', ''email'' \<mapsto> [], ''phone'' \<mapsto> [], ''country'' \<mapsto> []](''email'' \<mapsto> [])
   \<and> data_after (fst (process_conversation \<lparr>env_draw = 0, env_now = ''2024-05-04 10:00:00'', env_sink = SinkWrites\<rparr> \<lparr>excel_file = None, sink_calls = [], log = []\<rparr> ''no'' ''collect_company''
       ([''name'' \<mapsto> ''Asha Rao'', ''company'' \<mapsto> ''Operisoft'', ''email'' \<mapsto> [], ''phone'' \<mapsto> [], ''country'' \<mapsto> []](''company'' \<mapsto> [])) ''company'' False)) = [''name'' \<mapsto> ''Asha Rao'', ''company'' \<mapsto> ''Operisoft'', ''email'' \<mapsto> [], ''phone'' \<mapsto> [], ''country'' \<mapsto> []](''company'' \<mapsto> ''No'')"
proof -
  have m1: "(''collect_email'', ''email'', []) \<in> set
             [(''collect_name'', ''name'', ''No''), (''collect_company'', ''company'', ''No''),
              (''collect_email'', ''email'', []), (''collect_phone'', ''phone'', []),
              (''collect_country'', ''country'', ''No'')]"
    by simp
  have m2: "(''collect_company'', ''company'', ''No'') \<in> set
             [(''collect_name'', ''name'', ''No''), (''collect_company'', ''company'', ''No''),
              (''collect_email'', ''email'', []), (''collect_phone'', ''phone'', []),
              (''collect_country'', ''country'', ''No'')]"
    by simp
  from repeated_no [OF m1, of "\<lparr>env_draw = 0, env_now = ''2024-05-04 10:00:00'', env_sink = SinkWrites\<rparr>" "\<lparr>excel_file = None, sink_calls = [], log = []\<rparr>" "[''name'' \<mapsto> ''Asha Rao'', ''company'' \<mapsto> ''Operisoft'', ''email'' \<mapsto> [], ''phone'' \<mapsto> [], ''country'' \<mapsto> []]" "''email''"]
  have a: "new_state (projr (fst (process_conversation \<lparr>env_draw = 0, env_now = ''2024-05-04 10:00:00'', env_sink = SinkWrites\<rparr> \<lparr>excel_file = None, sink_calls = [], log = []\<rparr> ''no'' ''collect_email''
       [''name'' \<mapsto> ''Asha Rao'', ''company'' \<mapsto> ''Operisoft'', ''email'' \<mapsto> [], ''phone'' \<mapsto> [], ''country'' \<mapsto> []] ''email'' True))) = ''collect_email''
   \<and> data_after (fst (process_conversation \<lparr>env_draw = 0, env_now = ''2024-05-04 10:00:00'', env_sink = SinkWrites\<rparr> \<lparr>excel_file = None, sink_calls = [], log = []\<rparr> ''no'' ''collect_email''
       ([''name'' \<mapsto> ''Asha Rao'', ''company'' \<mapsto> ''Operisoft'', ''email'' \<mapsto> [], ''phone'' \<mapsto> [], ''country'' \<mapsto> []](''email'' \<mapsto> [])) ''email'' False)) = [''name'' \<mapsto> ''Asha Rao'', ''company'' \<mapsto> ''Operisoft'', ''email'' \<mapsto> [], ''phone'' \<mapsto> [], ''country'' \<mapsto> []](''email'' \<mapsto> [])"
    by (auto simp add: data_after_def)
  from repeated_no [OF m2, of "\<lparr>env_draw = 0, env_now = ''2024-05-04 10:00:00'', env_sink = SinkWrites\<rparr>" "\<lparr>excel_file = None, sink_calls = [], log = []\<rparr>" "[''name'' \<mapsto> ''Asha Rao'', ''company'' \<mapsto> ''Operisoft'', ''email'' \<mapsto> [], ''phone'' \<mapsto> [], ''country'' \<mapsto> []]" "''company''"]
  have b: "data_after (fst (process_conversation \<lparr>env_draw = 0, env_now = ''2024-05-04 10:00:00'', env_sink = SinkWrites\<rparr> \<lparr>excel_file = None, sink_calls = [], log = []\<rparr> ''no'' ''collect_company''
       ([''name'' \<mapsto> ''Asha Rao'', ''company'' \<mapsto> ''Operisoft'', ''email'' \<mapsto> [], ''phone'' \<mapsto> [], ''country'' \<mapsto> []](''company'' \<mapsto> [])) ''company'' False)) = [''name'' \<mapsto> ''Asha Rao'', ''company'' \<mapsto> ''Operisoft'', ''email'' \<mapsto> [], ''phone'' \<mapsto> [], ''country'' \<mapsto> []](''company'' \<mapsto> ''No'')"
    by (auto simp add: data_after_def)
  from a b show ?thesis by blast
qed

subsection \<open>Sessions and the record at the final confirmation\<close>

lemma filled_upd: "filled (d(k \<mapsto> v)) k' = (if k' = k then v \<noteq> [] else filled d k')"
  by (simp add: filled_def)

lemma filled_Some: "filled d k \<Longrightarrow> \<exists>v. d k = Some v \<and> v \<noteq> []"
  by (cases "d k") (simp_all add: filled_def)

lemma format_phone_nonempty: "phone \<noteq> [] \<Longrightarrow> format_phone_with_country phone country \<noteq> []"
  by (simp add: format_phone_with_country_def Let_def)

lemma truthy_the: "truthy v \<Longrightarrow> the v \<noteq> []"
  by (cases v) (simp_all add: truthy_def)


lemma config_of_reply [simp]: "config_of (reply r st d f a) = (st, d, f, a)"
  by (simp add: config_of_def reply_def)

lemma config_of_reply_manual [simp]: "config_of (reply_manual r st d f) = (st, d, f, False)"
  by (simp add: config_of_def reply_manual_def)

lemma config_ok_simps [simp]: "config_ok (st, d, cf, aw) = progress_ok st d cf aw"
  by (simp add: config_ok_def)

lemma greeting_keeps: "config_ok (config_of (handle_greeting draw u d [] aw))"
  by (simp add: handle_greeting_def handle_off_topic_def progress_ok_def Let_def)

lemma name_keeps:
  assumes "progress_ok ''collect_name'' d cf aw"
  shows "\<exists>out. handle_name_collection u d cf aw = Inr out \<and> config_ok (config_of out)"
proof (cases aw)
  case True
  with assms obtain n where "d ''name'' = Some n" "n \<noteq> []"
    by (auto simp add: progress_ok_def dest: filled_Some)
  with True show ?thesis
    by (simp add: handle_name_collection_def progress_ok_def filled_def)
next
  case False
  then show ?thesis
    by (simp add: handle_name_collection_def progress_ok_def filled_upd truthy_the Let_def)
qed


lemma company_keeps:
  assumes "progress_ok ''collect_company'' d cf aw"
  shows "\<exists>out. handle_company_collection u d cf aw = Inr out \<and> config_ok (config_of out)"
  using assms
  by (cases aw)
     (simp_all add: handle_company_collection_def progress_ok_def filled_upd truthy_the Let_def)

lemma email_keeps:
  assumes "progress_ok ''collect_email'' d cf aw"
  shows "\<exists>out. handle_email_collection u d cf aw = Inr out \<and> config_ok (config_of out)"
  using assms
  by (cases aw)
     (simp_all add: handle_email_collection_def progress_ok_def filled_upd truthy_the Let_def)

lemma phone_keeps:
  assumes "progress_ok ''collect_phone'' d cf aw"
  shows "\<exists>out. handle_phone_collection u d cf aw = Inr out \<and> config_ok (config_of out)"
  using assms
  by (cases aw)
     (simp_all add: handle_phone_collection_def progress_ok_def filled_upd truthy_the Let_def)

lemma country_keeps:
  assumes "progress_ok ''collect_country'' d cf aw"
  shows "\<exists>out. handle_country_collection u d cf aw = Inr out \<and> config_ok (config_of out)"
proof (cases aw)
  case True
  with assms obtain n c e p k where
    keys: "d ''name'' = Some n" "d ''company'' = Some c" "d ''email'' = Some e"
      "d ''phone'' = Some p" "d ''country'' = Some k"
    and full: "n \<noteq> []" "c \<noteq> []" "e \<noteq> []" "p \<noteq> []" "k \<noteq> []"
    by (auto simp add: progress_ok_def dest!: filled_Some)
  with True show ?thesis
    by (simp add: handle_country_collection_def country_summary_def progress_ok_def filled_def
          format_phone_nonempty Let_def)
next
  case False
  with assms show ?thesis
    by (simp add: handle_country_collection_def progress_ok_def filled_upd truthy_the Let_def)
qed

lemma final_keeps:
  assumes "progress_ok ''final_confirmation'' d cf aw"
  shows "config_ok (config_of (fst (handle_final_confirmation outcome now w u d cf aw)))"
proof -
  have stamped: "\<And>k. k \<in> set field_order \<Longrightarrow>
      filled (fst (save_visitor_data outcome now d w)) k = filled d k"
    by (cases outcome)
       (auto simp add: save_visitor_data_def Let_def filled_def field_order_def)
  show ?thesis
    using assms stamped
    by (simp add: handle_final_confirmation_def progress_ok_def split_beta field_order_def
          empty_user_data_def filled_def)
qed


lemma turn_keeps:
  assumes "progress_ok st d cf aw"
  shows "config_ok (config_of (fst (route_process_conversation e w u st d cf aw)))"
proof -
  have route: "\<And>out w1. process_conversation e w u st d cf aw = (Inr out, w1) \<Longrightarrow>
      fst (route_process_conversation e w u st d cf aw) = out"
    by (simp add: route_process_conversation_def)
  consider (name) "st = ''collect_name''" | (company) "st = ''collect_company''"
    | (email) "st = ''collect_email''" | (phone) "st = ''collect_phone''"
    | (country) "st = ''collect_country''" | (final) "st = ''final_confirmation''"
    | (other) "st \<noteq> ''collect_name''" "st \<noteq> ''collect_company''" "st \<noteq> ''collect_email''"
        "st \<noteq> ''collect_phone''" "st \<noteq> ''collect_country''" "st \<noteq> ''final_confirmation''"
    by blast
  then show ?thesis
  proof cases
    case name
    with assms name_keeps [of d cf aw u] obtain out where
      "handle_name_collection u d cf aw = Inr out" "config_ok (config_of out)" by blast
    with name route [of out w] show ?thesis
      by (simp add: process_conversation_cases)
  next
    case company
    with assms company_keeps [of d cf aw u] obtain out where
      "handle_company_collection u d cf aw = Inr out" "config_ok (config_of out)" by blast
    with company route [of out w] show ?thesis
      by (simp add: process_conversation_cases)
  next
    case email
    with assms email_keeps [of d cf aw u] obtain out where
      "handle_email_collection u d cf aw = Inr out" "config_ok (config_of out)" by blast
    with email route [of out w] show ?thesis
      by (simp add: process_conversation_cases)
  next
    case phone
    with assms phone_keeps [of d cf aw u] obtain out where
      "handle_phone_collection u d cf aw = Inr out" "config_ok (config_of out)" by blast
    with phone route [of out w] show ?thesis
      by (simp add: process_conversation_cases)
  next
    case country
    with assms country_keeps [of d cf aw u] obtain out where
      "handle_country_collection u d cf aw = Inr out" "config_ok (config_of out)" by blast
    with country route [of out w] show ?thesis
      by (simp add: process_conversation_cases)
  next
    case final
    with assms final_keeps [of d cf aw "env_sink e" "env_now e" w u]
      route [of "fst (handle_final_confirmation (env_sink e) (env_now e) w u d cf aw)"
                "snd (handle_final_confirmation (env_sink e) (env_now e) w u d cf aw)"]
    show ?thesis
      by (simp add: process_conversation_cases)
  next
    case other
    with assms have "cf = []" by (simp add: progress_ok_def)
    with other greeting_keeps [of "env_draw e" u d aw]
      route [of "handle_greeting (env_draw e) u d cf aw" w]
    show ?thesis
      by (simp add: process_conversation_cases)
  qed
qed

lemma manual_keeps:
  assumes "progress_ok st d cf aw" and "handle_manual_input cf v d = Inr out"
  shows "config_ok (config_of out)"
proof -
  consider (name) "cf = ''name''" | (company) "cf = ''company''" | (email) "cf = ''email''"
    | (phone) "cf = ''phone''" | (country) "cf = ''country''" | (none) "cf = []"
    using assms(1) by (auto simp add: progress_ok_def split: if_splits)
  then show ?thesis
  proof cases
    case name
    with assms show ?thesis
      by (auto simp add: handle_manual_input_def field_order_def progress_ok_def filled_upd
            Let_def split: if_splits)
  next
    case company
    with assms show ?thesis
      by (auto simp add: handle_manual_input_def field_order_def progress_ok_def filled_upd
            Let_def split: if_splits)
  next
    case email
    with assms show ?thesis
      by (auto simp add: handle_manual_input_def field_order_def progress_ok_def filled_upd
            Let_def split: if_splits)
  next
    case phone
    with assms show ?thesis
      by (auto simp add: handle_manual_input_def field_order_def progress_ok_def filled_upd
            Let_def split: if_splits)
  next
    case country
    with assms show ?thesis
      by (auto simp add: handle_manual_input_def field_order_def progress_ok_def filled_upd
            manual_summary_def Let_def split: if_splits option.splits)
  next
    case none
    with assms show ?thesis
      by (auto simp add: handle_manual_input_def progress_ok_def)
  qed
qed

lemma reachable_in_order_ok:
  "reachable_by current_field_only c \<Longrightarrow> config_ok c"
proof (induction rule: reachable_by.induct)
  case start
  show ?case by (simp add: progress_ok_def)
next
  case (turn st d cf aw e w u out)
  then show ?case using turn_keeps [of st d cf aw e w u] by simp
next
  case (manual st d cf aw field v out)
  then show ?case
    using manual_keeps [of st d cf aw v out] by (simp add: current_field_only_def)
qed

lemma manual_next:
  assumes "index_of field_order field = Some i" and "i < 4" and "strip v = v" and "v \<noteq> []"
    and "field \<noteq> []"
  shows "handle_manual_input field v d =
           Inr (reply (''Thank you! Now, what's your '' @ field_order ! (i + 1) @ ''?'')
                  (''collect_'' @ field_order ! (i + 1)) (d(field \<mapsto> v))
                  (field_order ! (i + 1)) False)"
  using assms by (simp add: handle_manual_input_def Let_def field_order_def)

text \<open>
  C2, amended. Starting from \<open>greeting\<close> with the five fields empty, along every
  sequence of steps (turns of the conversation route, and manual entries made for the
  field the previous output named as current field), whenever the returned state is
  \<open>final_confirmation\<close> the name, company, email, phone and country of the record are
  all non-empty.
\<close>

theorem final_confirmation_complete:
  assumes "reachable_by current_field_only (st, d, cf, aw)"
    and "st = ''final_confirmation''"
  shows "filled d ''name'' \<and> filled d ''company'' \<and> filled d ''email'' \<and> filled d ''phone''
         \<and> filled d ''country''"
  using reachable_in_order_ok [OF assms(1)] assms(2) by (simp add: progress_ok_def)

text \<open>
  C2, as the claim states it, fails: the manual-input route takes the field from the
  request and does not look at the state, so one manual entry of the country, made in
  the greeting state, enters \<open>final_confirmation\<close> with the other four fields empty.
\<close>

theorem final_confirmation_incomplete_counterexample:
  "reachable_by any_field
     (''final_confirmation'', empty_user_data(''country'' \<mapsto> ''France''), [], False)
   \<and> (empty_user_data(''country'' \<mapsto> ''France'')) ''name'' = Some []"
proof -
  have str: "strip ''France'' = ''France''" by code_simp
  have run: "handle_manual_input ''country'' ''France'' empty_user_data =
     Inr (reply ''Perfect! Let me confirm: Name: , Company: , Email: , Phone: . Should I submit this?''
            ''final_confirmation'' (empty_user_data(''country'' \<mapsto> ''France'')) [] False)"
    using str
    by (simp add: handle_manual_input_def manual_summary_def field_order_def empty_user_data_def)
  have ok: "any_field [] ''country''" by (simp add: any_field_def)
  from reachable_by.manual [where allowed = any_field, OF reachable_by.start ok run]
  have "reachable_by any_field
     (''final_confirmation'', empty_user_data(''country'' \<mapsto> ''France''), [], False)"
    by simp
  then show ?thesis by (simp add: empty_user_data_def)
qed

theorem final_confirmation_complete_witness:
  "reachable_by current_field_only
     (''final_confirmation'',
      empty_user_data(''name'' \<mapsto> ''Asha Rao'', ''company'' \<mapsto> ''Operisoft'',
        ''email'' \<mapsto> ''asha@operisoft.com'', ''phone'' \<mapsto> ''9876543210'',
        ''country'' \<mapsto> ''India''), [], False)
   \<and> filled (empty_user_data(''name'' \<mapsto> ''Asha Rao'', ''company'' \<mapsto> ''Operisoft'',
        ''email'' \<mapsto> ''asha@operisoft.com'', ''phone'' \<mapsto> ''9876543210'',
        ''country'' \<mapsto> ''India'')) ''name''
   \<and> filled (empty_user_data(''name'' \<mapsto> ''Asha Rao'', ''company'' \<mapsto> ''Operisoft'',
        ''email'' \<mapsto> ''asha@operisoft.com'', ''phone'' \<mapsto> ''9876543210'',
        ''country'' \<mapsto> ''India'')) ''country''"
proof -
  let ?ok = current_field_only
  have same: "\<And>f. current_field_only f f" by (simp add: current_field_only_def)
  let ?e = "\<lparr>env_draw = 0, env_now = ''2024-05-04 10:00:00'', env_sink = SinkWrites\<rparr>"
  let ?w = "\<lparr>excel_file = None, sink_calls = [], log = []\<rparr>"
  let ?d1 = "empty_user_data(''name'' \<mapsto> ''Asha Rao'')"
  let ?d2 = "?d1(''company'' \<mapsto> ''Operisoft'')"
  let ?d3 = "?d2(''email'' \<mapsto> ''asha@operisoft.com'')"
  let ?d4 = "?d3(''phone'' \<mapsto> ''9876543210'')"
  let ?d5 = "?d4(''country'' \<mapsto> ''India'')"
  have mood: "\<not> is_off_topic_question ''good''" "\<not> any_in negative_words (lower ''good'')"
    "any_in positive_words (lower ''good'')"
    by code_simp+
  have strips: "strip ''Asha Rao'' = ''Asha Rao''" "strip ''Operisoft'' = ''Operisoft''"
    "strip ''asha@operisoft.com'' = ''asha@operisoft.com''" "strip ''9876543210'' = ''9876543210''"
    "strip ''India'' = ''India''"
    by code_simp+
  have idx: "index_of field_order ''name'' = Some 0" "index_of field_order ''company'' = Some 1"
    "index_of field_order ''email'' = Some 2" "index_of field_order ''phone'' = Some 3"
    by (simp_all add: field_order_def)
  have greet: "fst (route_process_conversation ?e ?w ''good'' ''greeting'' empty_user_data [] False) =
      reply ''Wonderful! Let's get started. What's your name?'' ''collect_name'' empty_user_data
        ''name'' False"
    using mood
    by (simp add: route_process_conversation_def process_conversation_cases handle_greeting_def)
  have r1: "reachable_by ?ok (''collect_name'', empty_user_data, ''name'', False)"
    using reachable_by.turn [OF reachable_by.start greet, of ?ok] by simp
  have r2: "reachable_by ?ok (''collect_company'', ?d1, ''company'', False)"
    using reachable_by.manual [OF r1 same manual_next [OF idx(1) _ strips(1)]]
    by (simp add: field_order_def)
  have r3: "reachable_by ?ok (''collect_email'', ?d2, ''email'', False)"
    using reachable_by.manual [OF r2 same manual_next [OF idx(2) _ strips(2)]]
    by (simp add: field_order_def)
  have r4: "reachable_by ?ok (''collect_phone'', ?d3, ''phone'', False)"
    using reachable_by.manual [OF r3 same manual_next [OF idx(3) _ strips(3)]]
    by (simp add: field_order_def)
  have r5: "reachable_by ?ok (''collect_country'', ?d4, ''country'', False)"
    using reachable_by.manual [OF r4 same manual_next [OF idx(4) _ strips(4)]]
    by (simp add: field_order_def)
  have last: "handle_manual_input ''country'' ''India'' ?d4 =
     Inr (reply ''Perfect! Let me confirm: Name: Asha Rao, Company: Operisoft, Email: asha@operisoft.com, Phone: 9876543210. Should I submit this?''
            ''final_confirmation'' ?d5 [] False)"
    using strips(5)
    by (simp add: handle_manual_input_def manual_summary_def field_order_def)
  have r6: "reachable_by ?ok (''final_confirmation'', ?d5, [], False)"
    using reachable_by.manual [OF r5 same last] by simp
  from final_confirmation_complete [OF r6 refl] r6 show ?thesis by simp
qed

end
